theory Spec2Isabelle
  imports Complex_Main
begin

section \<open>Data model\<close>

text \<open>
  The persisted collections of the backend, as the Mongoose schemas under \<open>models/\<close>
  declare them. Object ids and phone numbers are strings, dates are milliseconds since
  the epoch (\<open>nat\<close>), a Number that is an amount of money is a \<open>real\<close>, a JavaScript
  value that may be \<open>undefined\<close> or \<open>null\<close> is an \<open>option\<close>. A string is the list of
  the bytes of its UTF-8 encoding; where the code counts or classifies the UTF-16 code
  units of a string (its \<open>length\<close>, the class \<open>\s\<close>), the model does so on the encoded
  text. The store is a list of documents in natural order; every database call of
  the handlers is one atomic function on that list, and a handler is a function from the
  world before the request to the HTTP response and the world after it. Database and
  network failures (the \<open>catch\<close> blocks that answer 500) are outside the model, except
  where a handler's claim depends on them.
\<close>

subsection \<open>JavaScript truthiness\<close>

text \<open>\<open>!x\<close> on a string-valued property: \<open>undefined\<close>, \<open>null\<close> and \<open>""\<close> are falsy.\<close>

fun truthy :: "string option \<Rightarrow> bool" where
  "truthy None = False"
| "truthy (Some s) = (s \<noteq> [])"

subsection \<open>Delivery (models/Delivery.js)\<close>

datatype deliveryStatus = Upcoming | Pending | Accepted | InTransit | Completed | Cancelled

text \<open>
  The \<open>driverId\<close> path of a stored delivery: the field may be absent from the document,
  hold \<open>null\<close> (the schema default), or reference a driver.
\<close>

datatype driverRef = Missing | Null | Ref string

record delivery =
  delivery_id :: string
  senderId :: string
  driverId :: driverRef
  price :: real
  totalCost :: real
  status :: deliveryStatus
  acceptedAt :: "nat option"
  startedAt :: "nat option"
  completedAt :: "nat option"
  createdAt :: nat
  updatedAt :: nat

text \<open>The query operators the handlers use on \<open>driverId\<close>.\<close>

fun eq_null :: "driverRef \<Rightarrow> bool" where
  \<comment> \<open>\<open>{ driverId: null }\<close> matches a null field and a missing one\<close>
  "eq_null Missing = True"
| "eq_null Null = True"
| "eq_null (Ref r) = False"

fun field_exists :: "driverRef \<Rightarrow> bool" where
  \<comment> \<open>\<open>{ driverId: { $exists: true } }\<close>\<close>
  "field_exists Missing = False"
| "field_exists Null = True"
| "field_exists (Ref r) = True"

definition unclaimed :: "delivery \<Rightarrow> bool" where
  \<comment> \<open>\<open>$or: [{ driverId: null }, { driverId: { $exists: false } }]\<close>\<close>
  "unclaimed d = (eq_null (driverId d) \<or> \<not> field_exists (driverId d))"

definition in_active_status :: "delivery \<Rightarrow> bool" where
  \<comment> \<open>\<open>status: { $in: ['accepted', 'in-transit'] }\<close>\<close>
  "in_active_status d = (status d = Accepted \<or> status d = InTransit)"

subsection \<open>Driver, one-time codes, notifications\<close>

record document =
  doc_filename :: "string option"
  originalName :: "string option"
  mimetype :: "string option"
  doc_size :: nat
  url :: string
  publicId :: "string option"
  uploadedAt :: nat

text \<open>
  Modelled from the spec: the Driver schema (\<open>models/Driver\<close>) is not among the sources.
  The record has the fields the handlers read and write, with the types the data model
  of the specification gives them. \<open>documents\<close> is the mapping from document-type key to
  document record, kept as an association list in insertion order (\<open>Object.keys\<close> is
  \<open>map fst\<close>); \<open>None\<close> is a driver without the field.
\<close>

record driver =
  driver_id :: string
  name :: "string option"
  firstName :: "string option"
  lastName :: "string option"
  email :: "string option"
  phone :: "string option"
  password :: "string option"
  verified :: bool
  registrationStep :: "string option"
  earnType :: "string option"
  city :: "string option"
  referralCode :: "string option"
  documents :: "(string \<times> document) list option"
  available :: bool
  totalDeliveries :: nat

record otp =
  otp_phone :: string
  otp_code :: string
  otp_type :: string
  expiresAt :: nat

datatype notifData =
    DeliveryData string
  | CompletedData string real
  | PaymentData real string
  | UpdatedFields "string list"
  | DocumentData string
  | StepData string
  | NoData

record notification =
  userId :: string
  ntype :: string
  ndata :: notifData
  priority :: string

record world =
  deliveries :: "delivery list"
  drivers :: "driver list"
  otps :: "otp list"
  notifications :: "notification list"
  destroyed :: "string list"

section \<open>Store primitives\<close>

text \<open>
  \<open>Model.findOne(filter)\<close> is \<^const>\<open>List.find\<close>. \<open>Model.findOneAndUpdate(filter, update,
  {new: true})\<close> applies the update to the first document matching the filter and
  returns the updated document, or returns \<open>null\<close> and leaves the collection as it is.
\<close>

fun findOneAndUpdate :: "('a \<Rightarrow> bool) \<Rightarrow> ('a \<Rightarrow> 'a) \<Rightarrow> 'a list \<Rightarrow> 'a option \<times> 'a list" where
  "findOneAndUpdate P f [] = (None, [])"
| "findOneAndUpdate P f (x # xs) =
     (if P x then (Some (f x), f x # xs)
      else (case findOneAndUpdate P f xs of (r, ys) \<Rightarrow> (r, x # ys)))"

section \<open>Notification service (services/NotificationService.js)\<close>

text \<open>
  \<open>createNotification\<close> inserts one notification document. The title and message
  texts are constants of the notification type and are left out.
\<close>

definition createNotification :: "string \<Rightarrow> string \<Rightarrow> notifData \<Rightarrow> string \<Rightarrow> world \<Rightarrow> world" where
  "createNotification uid ty dat prio w =
     w\<lparr>notifications := notifications w @
         [\<lparr>userId = uid, ntype = ty, ndata = dat, priority = prio\<rparr>]\<rparr>"

definition notifyDeliveryAccepted :: "string \<Rightarrow> delivery \<Rightarrow> world \<Rightarrow> world" where
  "notifyDeliveryAccepted drv d =
     createNotification drv ''delivery_accepted'' (DeliveryData (delivery_id d)) ''high''"

definition notifyDeliveryStarted :: "string \<Rightarrow> delivery \<Rightarrow> world \<Rightarrow> world" where
  "notifyDeliveryStarted drv d =
     createNotification drv ''delivery_started'' (DeliveryData (delivery_id d)) ''medium''"

definition notifyDeliveryCompleted :: "string \<Rightarrow> delivery \<Rightarrow> real \<Rightarrow> world \<Rightarrow> world" where
  "notifyDeliveryCompleted drv d earning =
     createNotification drv ''delivery_completed'' (CompletedData (delivery_id d) earning) ''high''"

definition notifyPaymentSuccess :: "string \<Rightarrow> real \<Rightarrow> string \<Rightarrow> world \<Rightarrow> world" where
  "notifyPaymentSuccess drv amount description =
     createNotification drv ''payment_success'' (PaymentData amount description) ''high''"

definition notifyProfileUpdated :: "string \<Rightarrow> string list \<Rightarrow> world \<Rightarrow> world" where
  "notifyProfileUpdated drv updatedFields =
     createNotification drv ''profile_updated'' (UpdatedFields updatedFields) ''low''"

definition notifyDocumentUploaded :: "string \<Rightarrow> string \<Rightarrow> world \<Rightarrow> world" where
  "notifyDocumentUploaded drv documentType =
     createNotification drv ''document_uploaded'' (DocumentData documentType) ''medium''"

definition notifyRegistrationCompleted :: "string \<Rightarrow> world \<Rightarrow> world" where
  "notifyRegistrationCompleted drv =
     createNotification drv ''registration_completed'' (StepData ''completed'') ''high''"

definition notifyVerificationApproved :: "string \<Rightarrow> world \<Rightarrow> world" where
  "notifyVerificationApproved drv =
     createNotification drv ''verification_approved'' NoData ''high''"

section \<open>Delivery controller (controllers/deliveryController.js)\<close>

text \<open>
  A handler's response is the HTTP status with the JSON body. \<open>mongoose.Types.ObjectId.isValid\<close>
  is the library's format check and is a parameter of the handlers. The driver id is the
  one the authentication middleware attached to the request. \<open>_id\<close> is the primary key
  of a collection: the properties that need it assume the ids of the stored deliveries
  distinct.
\<close>

datatype deliveryBody =
    InvalidIdFormat string
  | Failure string
  | DeliveryOk delivery string

definition isValidObjectId :: "(string \<Rightarrow> bool) \<Rightarrow> string \<Rightarrow> bool" where
  "isValidObjectId oidValid i = (oidValid i \<and> i \<noteq> '':deliveryId'')"

definition incTotalDeliveries :: "string \<Rightarrow> world \<Rightarrow> world" where
  \<comment> \<open>\<open>Driver.findByIdAndUpdate(driverId, { $inc: { totalDeliveries: 1 } })\<close>\<close>
  "incTotalDeliveries drv w =
     w\<lparr>drivers := snd (findOneAndUpdate (\<lambda>x. driver_id x = drv)
                        (\<lambda>x. x\<lparr>totalDeliveries := totalDeliveries x + 1\<rparr>) (drivers w))\<rparr>"

definition active_for :: "string \<Rightarrow> delivery \<Rightarrow> bool" where
  \<comment> \<open>\<open>{ driverId: driverId, status: { $in: ['accepted', 'in-transit'] } }\<close>\<close>
  "active_for drv d = (driverId d = Ref drv \<and> in_active_status d)"

definition claimable :: "string \<Rightarrow> delivery \<Rightarrow> bool" where
  \<comment> \<open>the filter of the conditional update in \<open>acceptDelivery\<close>\<close>
  "claimable delId d = (delivery_id d = delId \<and> status d = Upcoming \<and> unclaimed d)"

definition claim_update :: "string \<Rightarrow> nat \<Rightarrow> delivery \<Rightarrow> delivery" where
  \<comment> \<open>the update document of \<open>acceptDelivery\<close>; the schema's \<open>timestamps\<close> option
      has every update set \<open>updatedAt\<close>\<close>
  "claim_update drv now d =
     d\<lparr>driverId := Ref drv, status := Accepted, acceptedAt := Some now, updatedAt := now\<rparr>"

definition acceptDelivery ::
  "(string \<Rightarrow> bool) \<Rightarrow> nat \<Rightarrow> string \<Rightarrow> string \<Rightarrow> world \<Rightarrow> (nat \<times> deliveryBody) \<times> world" where
  "acceptDelivery oidValid now drv delId w =
     (if \<not> isValidObjectId oidValid delId then ((400, InvalidIdFormat delId), w)
      else case find (active_for drv) (deliveries w) of
        Some existingActiveDelivery \<Rightarrow>
          ((400, Failure ''You already have an active delivery''), w)
      | None \<Rightarrow>
         (case findOneAndUpdate (claimable delId) (claim_update drv now) (deliveries w) of
            (None, ds) \<Rightarrow> ((400, Failure ''Delivery not available or already accepted''), w)
          | (Some d, ds) \<Rightarrow>
              ((200, DeliveryOk d ''Delivery accepted successfully''),
               notifyDeliveryAccepted drv d (incTotalDeliveries drv (w\<lparr>deliveries := ds\<rparr>)))))"

text \<open>
  The handler awaits its store calls one by one: the pre-check \<open>Delivery.findOne\<close> and
  the conditional update \<open>Delivery.findOneAndUpdate\<close> are two separate accesses, and
  another request can run between them. \<open>acceptDelivery_check\<close> is the handler up to and
  including the pre-check (the response, if the request ends there);
  \<open>acceptDelivery_write\<close> is the handler from the conditional update on.
  \<open>acceptDelivery\<close> above is the two run back to back.
\<close>

definition acceptDelivery_check ::
  "(string \<Rightarrow> bool) \<Rightarrow> string \<Rightarrow> string \<Rightarrow> world \<Rightarrow> (nat \<times> deliveryBody) option" where
  "acceptDelivery_check oidValid drv delId w =
     (if \<not> isValidObjectId oidValid delId then Some (400, InvalidIdFormat delId)
      else case find (active_for drv) (deliveries w) of
        Some existingActiveDelivery \<Rightarrow> Some (400, Failure ''You already have an active delivery'')
      | None \<Rightarrow> None)"

definition acceptDelivery_write ::
  "nat \<Rightarrow> string \<Rightarrow> string \<Rightarrow> world \<Rightarrow> (nat \<times> deliveryBody) \<times> world" where
  "acceptDelivery_write now drv delId w =
     (case findOneAndUpdate (claimable delId) (claim_update drv now) (deliveries w) of
        (None, ds) \<Rightarrow> ((400, Failure ''Delivery not available or already accepted''), w)
      | (Some d, ds) \<Rightarrow>
          ((200, DeliveryOk d ''Delivery accepted successfully''),
           notifyDeliveryAccepted drv d (incTotalDeliveries drv (w\<lparr>deliveries := ds\<rparr>))))"

definition startable :: "string \<Rightarrow> string \<Rightarrow> delivery \<Rightarrow> bool" where
  "startable drv delId d = (delivery_id d = delId \<and> driverId d = Ref drv \<and> status d = Accepted)"

definition start_update :: "nat \<Rightarrow> delivery \<Rightarrow> delivery" where
  "start_update now d = d\<lparr>status := InTransit, startedAt := Some now, updatedAt := now\<rparr>"

definition startDelivery ::
  "(string \<Rightarrow> bool) \<Rightarrow> nat \<Rightarrow> string \<Rightarrow> string \<Rightarrow> world \<Rightarrow> (nat \<times> deliveryBody) \<times> world" where
  "startDelivery oidValid now drv delId w =
     (if \<not> isValidObjectId oidValid delId then ((400, InvalidIdFormat delId), w)
      else case findOneAndUpdate (startable drv delId) (start_update now) (deliveries w) of
        (None, ds) \<Rightarrow> ((400, Failure ''Delivery not found or cannot be started''), w)
      | (Some d, ds) \<Rightarrow>
          ((200, DeliveryOk d ''Delivery started successfully''),
           notifyDeliveryStarted drv d (w\<lparr>deliveries := ds\<rparr>)))"

definition completable :: "string \<Rightarrow> string \<Rightarrow> delivery \<Rightarrow> bool" where
  "completable drv delId d = (delivery_id d = delId \<and> driverId d = Ref drv \<and> status d = InTransit)"

definition complete_update :: "nat \<Rightarrow> delivery \<Rightarrow> delivery" where
  "complete_update now d = d\<lparr>status := Completed, completedAt := Some now, updatedAt := now\<rparr>"

definition estimatedEarning :: "delivery \<Rightarrow> real option" where
  \<comment> \<open>the Delivery schema declares no \<open>estimatedEarning\<close> path: the property read on a
      Mongoose document is \<open>undefined\<close>\<close>
  "estimatedEarning d = None"

definition earning_of :: "delivery \<Rightarrow> real" where
  \<comment> \<open>\<open>delivery.price || delivery.estimatedEarning || 0\<close>: the first non-zero operand\<close>
  "earning_of d =
     (if price d \<noteq> 0 then price d
      else case estimatedEarning d of
             Some e \<Rightarrow> (if e \<noteq> 0 then e else 0)
           | None \<Rightarrow> 0)"

definition completeDelivery ::
  "(string \<Rightarrow> bool) \<Rightarrow> nat \<Rightarrow> string \<Rightarrow> string \<Rightarrow> world \<Rightarrow> (nat \<times> deliveryBody) \<times> world" where
  "completeDelivery oidValid now drv delId w =
     (if \<not> isValidObjectId oidValid delId then ((400, InvalidIdFormat delId), w)
      else case findOneAndUpdate (completable drv delId) (complete_update now) (deliveries w) of
        (None, ds) \<Rightarrow> ((400, Failure ''Delivery not found or cannot be completed''), w)
      | (Some d, ds) \<Rightarrow>
          ((200, DeliveryOk d ''Delivery completed successfully''),
           (let earning = earning_of d;
                w1 = notifyDeliveryCompleted drv d earning (w\<lparr>deliveries := ds\<rparr>)
            in if earning > 0 then notifyPaymentSuccess drv earning ''delivery completion'' w1
               else w1)))"

text \<open>The failure categories of the specification, as the responses the handlers send.\<close>

definition Conflict :: "nat \<times> deliveryBody" where
  "Conflict = (400, Failure ''You already have an active delivery'')"

definition NotAvailable :: "nat \<times> deliveryBody" where
  "NotAvailable = (400, Failure ''Delivery not available or already accepted'')"

definition InvalidTransition :: "nat \<times> deliveryBody" where
  "InvalidTransition = (400, Failure ''Delivery not found or cannot be started'')"

definition succeeded :: "nat \<times> deliveryBody \<Rightarrow> bool" where
  "succeeded r = (case snd r of DeliveryOk d m \<Rightarrow> fst r = 200 | _ \<Rightarrow> False)"

subsection \<open>Delivery directory\<close>

text \<open>
  \<open>.sort({ createdAt: -1 })\<close>: descending by creation time, as a stable sort of the
  collection's natural order. \<open>populate\<close> only resolves the sender reference of the
  documents returned and is left out.
\<close>

definition sortNewestFirst :: "delivery list \<Rightarrow> delivery list" where
  "sortNewestFirst ds = sort_key (\<lambda>d. - int (createdAt d)) ds"

definition findAvailable :: "delivery list \<Rightarrow> delivery list" where
  \<comment> \<open>the static \<open>findAvailable\<close> of models/Delivery.js\<close>
  "findAvailable ds =
     sortNewestFirst
       (filter (\<lambda>d. status d = Upcoming \<and> (\<not> field_exists (driverId d) \<or> eq_null (driverId d))) ds)"

record availableBody =
  out_deliveries :: "delivery list"
  totalCount :: nat
  statusCounts :: "(deliveryStatus \<times> nat) list"
  upcomingCount :: nat
  nullDriverCount :: nat
  noDriverFieldCount :: nat
  queryWithoutPopulateCount :: nat

definition getAvailableDeliveries :: "world \<Rightarrow> nat \<times> availableBody" where
  \<comment> \<open>the query of step 8 has its \<open>status: 'upcoming'\<close> line commented out\<close>
  "getAvailableDeliveries w =
     (let ds = deliveries w;
          queryWithoutPopulate = filter (\<lambda>d. status d = Upcoming \<and> unclaimed d) ds;
          availableDeliveries = sortNewestFirst (filter unclaimed ds)
      in (200,
          \<lparr>out_deliveries = availableDeliveries,
           totalCount = length ds,
           statusCounts = map (\<lambda>s. (s, length (filter (\<lambda>d. status d = s) ds))) (remdups (map status ds)),
           upcomingCount = length (filter (\<lambda>d. status d = Upcoming) ds),
           nullDriverCount = length (filter (\<lambda>d. status d = Upcoming \<and> eq_null (driverId d)) ds),
           noDriverFieldCount = length (filter (\<lambda>d. status d = Upcoming \<and> \<not> field_exists (driverId d)) ds),
           queryWithoutPopulateCount = length queryWithoutPopulate\<rparr>))"

section \<open>Registration controller (controllers/driverRegistrationController.js)\<close>

subsection \<open>Tokens and responses\<close>

text \<open>
  A JSON web token is its claim set; signing is the token issuer's business. The
  \<open>Authorization\<close> header of a request either carries no token, a token that
  \<open>jwt.verify\<close> rejects, or a token with the decoded claims. The two phone
  verification handlers read no token at all.
\<close>

record claims =
  c_id :: "string option"
  c_phone :: "string option"
  c_email :: "string option"
  c_step :: "string option"
  c_type :: "string option"
  expiresIn :: string

datatype auth = NoToken | BadToken | Token claims

datatype regBody =
    Msg string
  | OtpIssued string "string option" string
  | StepDone string claims driver string "string list"
  | Incomplete string "string list" "string list" "string list"
  | Finalized string claims driver string
  | InvalidDocType "string list"
  | ErrorMsg string
  | Uploaded string claims "string \<times> string \<times> nat" "string list" "string list" "string list"

subsection \<open>Helpers\<close>

definition generateOTP :: string where
  "generateOTP = ''123456''"

definition stepOrder :: "string list" where
  "stepOrder = [''verified_phone'', ''basic_info_completed'', ''earn_type_completed'',
                ''documents_uploading'', ''completed'']"

fun indexOf :: "'a list \<Rightarrow> 'a \<Rightarrow> int" where
  "indexOf [] x = - 1"
| "indexOf (y # ys) x =
     (if x = y then 0 else (let i = indexOf ys x in if i < 0 then - 1 else i + 1))"

definition stepIndex :: "string option \<Rightarrow> int" where
  \<comment> \<open>\<open>step ? stepOrder.indexOf(step) : -1\<close>\<close>
  "stepIndex s = (case s of None \<Rightarrow> - 1 | Some x \<Rightarrow> if x = [] then - 1 else indexOf stepOrder x)"

definition getCurrentRegistrationStep :: "driver \<Rightarrow> string option \<Rightarrow> string" where
  "getCurrentRegistrationStep d tokenStep =
     (let driverStepIndex = stepIndex (registrationStep d);
          tokenStepIndex = stepIndex tokenStep;
          currentIndex = max driverStepIndex tokenStepIndex
      in if currentIndex \<ge> 0 then stepOrder ! nat currentIndex else ''verified_phone'')"

definition documentKeys :: "driver \<Rightarrow> string list" where
  \<comment> \<open>\<open>driver.documents ? Object.keys(driver.documents) : []\<close>\<close>
  "documentKeys d = (case documents d of None \<Rightarrow> [] | Some kv \<Rightarrow> map fst kv)"

definition requiredDocs :: "string list" where
  "requiredDocs = [''driversLicense'', ''profilePhoto'']"

definition missingDocs :: "driver \<Rightarrow> string list" where
  "missingDocs d = filter (\<lambda>doc. doc \<notin> set (documentKeys d)) requiredDocs"

definition getNextAllowedActions :: "driver \<Rightarrow> string option \<Rightarrow> string list" where
  "getNextAllowedActions d currentStep =
     (if \<not> truthy (name d) \<or> \<not> truthy (email d) then [''complete_basic_info''] else []) @
     (if \<not> truthy (earnType d) \<or> \<not> truthy (city d) then [''setup_earn_type''] else []) @
     (if documents d = None \<or> documentKeys d = [] then [''upload_documents''] else []) @
     (if missingDocs d = [] \<and> truthy (earnType d) \<and> truthy (city d) \<and> truthy (name d)
      then [''complete_registration''] else [])"

fun join :: "string \<Rightarrow> string list \<Rightarrow> string" where
  "join sep [] = []"
| "join sep [x] = x"
| "join sep (x # y # ys) = x @ sep @ join sep (y # ys)"

definition findDriver :: "claims \<Rightarrow> driver list \<Rightarrow> driver option" where
  \<comment> \<open>the lookup every token-carrying handler repeats: by id if the token has one,
      else by phone\<close>
  "findDriver decoded ds =
     (if truthy (c_id decoded) then find (\<lambda>x. Some (driver_id x) = c_id decoded) ds
      else if truthy (c_phone decoded) then find (\<lambda>x. phone x = c_phone decoded) ds
      else None)"

definition saveDriver :: "driver \<Rightarrow> driver list \<Rightarrow> driver list" where
  \<comment> \<open>\<open>driver.save()\<close> of a document loaded from the collection\<close>
  "saveDriver d ds = map (\<lambda>x. if driver_id x = driver_id d then d else x) ds"

definition stepToken :: "driver \<Rightarrow> string \<Rightarrow> claims" where
  \<comment> \<open>the continuation token every step issues, valid two hours\<close>
  "stepToken d step =
     \<lparr>c_id = Some (driver_id d), c_phone = phone d, c_email = email d,
      c_step = Some step, c_type = None, expiresIn = ''2h''\<rparr>"

subsection \<open>Phone verification\<close>

definition newOtp :: "string \<Rightarrow> nat \<Rightarrow> otp" where
  "newOtp ph now =
     \<lparr>otp_phone = ph, otp_code = generateOTP, otp_type = ''driver_registration'',
      expiresAt = now + 5 * 60 * 1000\<rparr>"

definition registerPhone :: "nat \<Rightarrow> string option \<Rightarrow> world \<Rightarrow> (nat \<times> regBody) \<times> world" where
  "registerPhone now ph w =
     (case ph of
        None \<Rightarrow> ((400, Msg ''Phone number is required''), w)
      | Some p \<Rightarrow>
          if p = [] then ((400, Msg ''Phone number is required''), w)
          else (case find (\<lambda>x. phone x = Some p) (drivers w) of
                  Some existingDriver \<Rightarrow> ((409, Msg ''Phone number already registered''), w)
                | None \<Rightarrow>
                    ((200, OtpIssued ''OTP sent successfully'' (Some p) (otp_code (newOtp p now))),
                     w\<lparr>otps := filter (\<lambda>c. otp_phone c \<noteq> p) (otps w) @ [newOtp p now]\<rparr>)))"

definition resendOtp :: "nat \<Rightarrow> string option \<Rightarrow> world \<Rightarrow> (nat \<times> regBody) \<times> world" where
  "resendOtp now ph w =
     (case ph of
        None \<Rightarrow> ((400, Msg ''Phone number is required''), w)
      | Some p \<Rightarrow>
          if p = [] then ((400, Msg ''Phone number is required''), w)
          else ((200, OtpIssued ''OTP resent successfully'' None (otp_code (newOtp p now))),
                w\<lparr>otps := filter (\<lambda>c. \<not> (otp_phone c = p \<and> otp_type c = ''driver_registration''))
                                 (otps w) @ [newOtp p now]\<rparr>))"

subsection \<open>Basic information\<close>

text \<open>
  The class \<open>\s\<close> of a JavaScript regular expression: the six ASCII blanks and the
  code points U+00A0, U+1680, U+2000 to U+200A, U+2028, U+2029, U+202F, U+205F, U+3000
  and U+FEFF, here in their UTF-8 encodings. Every encoding starts with a lead byte, so
  in encoded text an occurrence of one of them is an occurrence of the code point.
\<close>

definition asciiSpaces :: "char list" where
  "asciiSpaces = [CHR '' '', CHR 0x09, CHR 0x0A, CHR 0x0B, CHR 0x0C, CHR 0x0D]"

definition unicodeSpaces :: "string list" where
  "unicodeSpaces =
     [[CHR 0xC2, CHR 0xA0], [CHR 0xE1, CHR 0x9A, CHR 0x80],
      [CHR 0xE2, CHR 0x80, CHR 0x80], [CHR 0xE2, CHR 0x80, CHR 0x81],
      [CHR 0xE2, CHR 0x80, CHR 0x82], [CHR 0xE2, CHR 0x80, CHR 0x83],
      [CHR 0xE2, CHR 0x80, CHR 0x84], [CHR 0xE2, CHR 0x80, CHR 0x85],
      [CHR 0xE2, CHR 0x80, CHR 0x86], [CHR 0xE2, CHR 0x80, CHR 0x87],
      [CHR 0xE2, CHR 0x80, CHR 0x88], [CHR 0xE2, CHR 0x80, CHR 0x89],
      [CHR 0xE2, CHR 0x80, CHR 0x8A], [CHR 0xE2, CHR 0x80, CHR 0xA8],
      [CHR 0xE2, CHR 0x80, CHR 0xA9], [CHR 0xE2, CHR 0x80, CHR 0xAF],
      [CHR 0xE2, CHR 0x81, CHR 0x9F], [CHR 0xE3, CHR 0x80, CHR 0x80],
      [CHR 0xEF, CHR 0xBB, CHR 0xBF]]"

fun startsWith :: "string \<Rightarrow> string \<Rightarrow> bool" where
  "startsWith [] s = True"
| "startsWith (p # ps) [] = False"
| "startsWith (p # ps) (c # cs) = (p = c \<and> startsWith ps cs)"

definition isSpace :: "string \<Rightarrow> bool" where
  \<comment> \<open>a character of the class \<open>\s\<close> starts the text\<close>
  "isSpace s =
     ((case s of [] \<Rightarrow> False | c # cs \<Rightarrow> c \<in> set asciiSpaces) \<or>
      list_ex (\<lambda>p. startsWith p s) unicodeSpaces)"

fun hasSpace :: "string \<Rightarrow> bool" where
  "hasSpace [] = False"
| "hasSpace (c # cs) = (isSpace (c # cs) \<or> hasSpace cs)"

definition emailRegex :: "string \<Rightarrow> bool" where
  \<comment> \<open>\<open>/^[^\s@]+@[^\s@]+\.[^\s@]+$/\<close>: no character of \<open>\s\<close>, exactly one \<open>@\<close>, a
      non-empty local part, and a domain with a dot that is neither its first nor its
      last character\<close>
  "emailRegex s =
     (\<not> hasSpace s \<and> takeWhile (\<lambda>c. c \<noteq> CHR ''@'') s \<noteq> [] \<and>
      (case dropWhile (\<lambda>c. c \<noteq> CHR ''@'') s of
         [] \<Rightarrow> False
       | c # domain \<Rightarrow> CHR ''@'' \<notin> set domain \<and> CHR ''.'' \<in> set (butlast (tl domain))))"

definition jsLength :: "string \<Rightarrow> nat" where
  \<comment> \<open>\<open>s.length\<close>, the number of UTF-16 code units: one for every encoded character
      (a byte that is not a continuation byte) and one more for every character of four
      bytes, which is a surrogate pair\<close>
  "jsLength s =
     length (filter (\<lambda>c. \<not> (0x80 \<le> (of_char c :: nat) \<and> (of_char c :: nat) < 0xC0)) s) +
     length (filter (\<lambda>c. 0xF0 \<le> (of_char c :: nat)) s)"

text \<open>
  \<open>bcrypt.compare\<close> and \<open>bcrypt.hash\<close> are parameters, and so is the id the database
  gives a created driver. A created driver has the fields \<open>Driver.create\<close> is given;
  the others are unset.

  Modelled from the spec: the unique index on a driver's phone is part of the Driver
  schema, which is not among the sources. By the data model of the specification the
  phone is unique, so a \<open>create\<close> with a phone already stored raises and the handler
  answers 500 from its \<open>catch\<close> block.
\<close>

definition completeRegistration ::
  "(string \<Rightarrow> string \<Rightarrow> bool) \<Rightarrow> (string \<Rightarrow> string) \<Rightarrow> string \<Rightarrow>
   string option \<Rightarrow> string option \<Rightarrow> string option \<Rightarrow> string option \<Rightarrow> auth \<Rightarrow> world \<Rightarrow>
   (nat \<times> regBody) \<times> world" where
  "completeRegistration bcrypt_compare bcrypt_hash newId fnm lnm eml pwd tempToken w =
     (if \<not> truthy fnm \<or> \<not> truthy lnm \<or> \<not> truthy eml \<or> \<not> truthy pwd
      then ((400, Msg ''First name, last name, email, and password are required''), w)
      else case (fnm, lnm, eml, pwd) of
        (Some f, Some l, Some e, Some p) \<Rightarrow>
          if \<not> emailRegex e then ((400, Msg ''Invalid email format''), w)
          else if jsLength p < 6 then ((400, Msg ''Password must be at least 6 characters''), w)
          else (case tempToken of
            NoToken \<Rightarrow> ((401, Msg ''Temporary token required''), w)
          | BadToken \<Rightarrow> ((401, Msg ''Invalid or expired temporary token''), w)
          | Token decoded \<Rightarrow>
             (let existingDriver =
                    (if truthy (c_id decoded)
                     then find (\<lambda>x. Some (driver_id x) = c_id decoded) (drivers w) else None);
                  ph = (case existingDriver of Some x \<Rightarrow> phone x | None \<Rightarrow> c_phone decoded)
              in if \<not> truthy ph then ((400, Msg ''Phone number not found in token''), w)
                 else case find (\<lambda>x. email x = Some e \<and>
                                  (case existingDriver of Some x0 \<Rightarrow> driver_id x \<noteq> driver_id x0
                                                        | None \<Rightarrow> True)) (drivers w) of
                   Some existingEmail \<Rightarrow> ((409, Msg ''Email already registered''), w)
                 | None \<Rightarrow>
                    (case existingDriver of
                       Some x0 \<Rightarrow>
                         (let d1 = x0\<lparr>name := Some (f @ '' '' @ l), firstName := Some f,
                                      lastName := Some l, email := Some e\<rparr>;
                              isPasswordSame =
                                bcrypt_compare p (case password d1 of Some h \<Rightarrow> h | None \<Rightarrow> []);
                              d2 = (if \<not> isPasswordSame then d1\<lparr>password := Some (bcrypt_hash p)\<rparr>
                                    else d1);
                              d = d2\<lparr>registrationStep := Some ''basic_info_completed''\<rparr>
                          in ((200, StepDone ''Basic registration completed successfully''
                                      (stepToken d ''basic_info_completed'') (d\<lparr>password := None\<rparr>)
                                      ''setup_earn_type''
                                      (getNextAllowedActions d (Some ''basic_info_completed''))),
                              notifyProfileUpdated (driver_id d) [''name'', ''email'']
                                (w\<lparr>drivers := saveDriver d (drivers w)\<rparr>)))
                     | None \<Rightarrow>
                         if find (\<lambda>x. phone x = ph) (drivers w) \<noteq> None
                         then ((500, Msg ''Registration failed''), w)
                         else
                         (let d = \<lparr>driver_id = newId, name = Some (f @ '' '' @ l),
                                   firstName = Some f, lastName = Some l, email = Some e,
                                   phone = ph, password = Some (bcrypt_hash p), verified = False,
                                   registrationStep = Some ''basic_info_completed'',
                                   earnType = None, city = None, referralCode = None,
                                   documents = None, available = False, totalDeliveries = 0\<rparr>
                          in ((201, StepDone ''Basic registration completed successfully''
                                      (stepToken d ''basic_info_completed'') (d\<lparr>password := None\<rparr>)
                                      ''setup_earn_type''
                                      (getNextAllowedActions d (Some ''basic_info_completed''))),
                              notifyProfileUpdated (driver_id d) [''name'', ''email'']
                                (w\<lparr>drivers := drivers w @ [d]\<rparr>))))))
      | _ \<Rightarrow> ((400, Msg ''First name, last name, email, and password are required''), w))"

subsection \<open>Earn type\<close>

definition validEarnTypes :: "string list" where
  "validEarnTypes = [''car'', ''scooter'', ''bicycle'', ''truck'']"

definition setupEarnType ::
  "string option \<Rightarrow> string option \<Rightarrow> string option \<Rightarrow> auth \<Rightarrow> world \<Rightarrow> (nat \<times> regBody) \<times> world" where
  "setupEarnType et ct rc tempToken w =
     (case (et, ct) of
        (Some earnType', Some city') \<Rightarrow>
          if earnType' = [] \<or> city' = [] then ((400, Msg ''Earn type and city are required''), w)
          else if earnType' \<notin> set validEarnTypes
          then ((400, Msg ''Invalid earn type. Must be one of: car, scooter, bicycle, truck''), w)
          else (case tempToken of
            NoToken \<Rightarrow> ((401, Msg ''Temporary token required''), w)
          | BadToken \<Rightarrow> ((401, Msg ''Invalid or expired temporary token''), w)
          | Token decoded \<Rightarrow>
             (case findDriver decoded (drivers w) of
                None \<Rightarrow> ((404, Msg ''Driver not found''), w)
              | Some x0 \<Rightarrow>
                 (let d = x0\<lparr>earnType := Some earnType', city := Some city',
                             referralCode := (if truthy rc then rc else None),
                             registrationStep := Some ''earn_type_completed''\<rparr>
                  in ((200, StepDone ''Earn type setup completed successfully''
                              (stepToken d ''earn_type_completed'') (d\<lparr>password := None\<rparr>)
                              ''upload_documents''
                              (getNextAllowedActions d (Some ''earn_type_completed''))),
                      notifyProfileUpdated (driver_id d) [''earnType'', ''city'']
                        (w\<lparr>drivers := saveDriver d (drivers w)\<rparr>)))))
      | _ \<Rightarrow> ((400, Msg ''Earn type and city are required''), w))"

subsection \<open>Documents\<close>

record upload =
  filename :: "string option"
  originalname :: "string option"
  file_mimetype :: "string option"
  file_size :: nat
  path :: "string option"
  public_id :: "string option"

definition validDocTypes :: "string list" where
  "validDocTypes = [''driversLicense'', ''profilePhoto'', ''socialInsuranceNumber'',
                    ''vehicleRegistration'', ''vehicleInsurance'']"

fun setKey :: "'k \<Rightarrow> 'v \<Rightarrow> ('k \<times> 'v) list \<Rightarrow> ('k \<times> 'v) list" where
  \<comment> \<open>\<open>obj[k] = v\<close>: an existing key keeps its place, a new one goes last\<close>
  "setKey k v [] = [(k, v)]"
| "setKey k v ((k', v') # kvs) = (if k = k' then (k, v) # kvs else (k', v') # setKey k v kvs)"

definition or_else :: "string option \<Rightarrow> string option \<Rightarrow> string option" where
  \<comment> \<open>\<open>a || b\<close> on strings\<close>
  "or_else a b = (if truthy a then a else b)"

definition uploadWarnings :: "driver \<Rightarrow> string list" where
  "uploadWarnings d =
     (if \<not> truthy (name d) \<or> \<not> truthy (email d)
      then [''Consider completing your basic information first for a better experience''] else []) @
     (if \<not> truthy (earnType d) \<or> \<not> truthy (city d)
      then [''Consider setting up your earn type and city for a complete profile''] else [])"

text \<open>
  \<open>saveOk\<close> tells whether \<open>driver.save()\<close> succeeds; when it throws, control reaches
  the \<open>catch\<close> block. That block deletes the uploaded blob and then calls
  \<open>notifyDocumentUploaded(driver._id, documentType)\<close>; \<open>driver\<close> is declared with \<open>let\<close>
  inside the \<open>try\<close> block and is not in scope in \<open>catch\<close>, so evaluating the argument
  throws a ReferenceError, which the surrounding \<open>try\<close> swallows: nothing is sent to the
  notification service. The success path has no notification call.
\<close>

definition uploadDocument ::
  "bool \<Rightarrow> nat \<Rightarrow> string \<Rightarrow> upload option \<Rightarrow> auth \<Rightarrow> world \<Rightarrow> (nat \<times> regBody) \<times> world" where
  "uploadDocument saveOk now documentType file tempToken w =
     (if documentType \<notin> set validDocTypes then ((400, InvalidDocType validDocTypes), w)
      else case file of
        None \<Rightarrow> ((400, ErrorMsg ''No file uploaded''), w)
      | Some fl \<Rightarrow>
         (case tempToken of
            NoToken \<Rightarrow> ((401, Msg ''Temporary token required''), w)
          | BadToken \<Rightarrow> ((401, Msg ''Invalid or expired temporary token''), w)
          | Token decoded \<Rightarrow>
             (case findDriver decoded (drivers w) of
                None \<Rightarrow> ((404, Msg ''Driver not found''), w)
              | Some x0 \<Rightarrow>
                 (let warnings = uploadWarnings x0;
                      docs = (case documents x0 of None \<Rightarrow> [] | Some kv \<Rightarrow> kv);
                      newPublicId = or_else (public_id fl) (filename fl);
                      w1 = (case map_of docs documentType of
                              Some old \<Rightarrow>
                                (case publicId old of
                                   Some oldId \<Rightarrow>
                                     if oldId \<noteq> [] then w\<lparr>destroyed := destroyed w @ [oldId]\<rparr> else w
                                 | None \<Rightarrow> w)
                            | None \<Rightarrow> w)
                  in case path fl of
                       None \<Rightarrow> ((500, ErrorMsg ''File upload to cloud storage failed''), w1)
                     | Some p \<Rightarrow>
                        if p = [] then ((500, ErrorMsg ''File upload to cloud storage failed''), w1)
                        else
                        (let newDoc = \<lparr>doc_filename = filename fl, originalName = originalname fl,
                                       mimetype = file_mimetype fl, doc_size = file_size fl,
                                       url = p, publicId = newPublicId, uploadedAt = now\<rparr>;
                             d1 = x0\<lparr>documents := Some (setKey documentType newDoc docs)\<rparr>;
                             currentStep = getCurrentRegistrationStep d1 (c_step decoded);
                             d = (if currentStep = ''verified_phone'' \<or>
                                     currentStep = ''basic_info_completed'' \<or>
                                     currentStep = ''earn_type_completed''
                                  then d1\<lparr>registrationStep := Some ''documents_uploading''\<rparr>
                                  else d1)
                         in if saveOk
                            then ((200, Uploaded ''Document uploaded successfully''
                                          (stepToken d ''documents_uploading'')
                                          (documentType, p, now) (documentKeys d)
                                          (getNextAllowedActions d (Some ''documents_uploading''))
                                          warnings),
                                  w1\<lparr>drivers := saveDriver d (drivers w1)\<rparr>)
                            else ((500, ErrorMsg ''Failed to upload document''),
                                  (case newPublicId of
                                     Some i \<Rightarrow>
                                       if i \<noteq> [] then w1\<lparr>destroyed := destroyed w1 @ [i]\<rparr> else w1
                                   | None \<Rightarrow> w1)))))))"

subsection \<open>Finalisation\<close>

definition finalizeErrors :: "driver \<Rightarrow> string list" where
  "finalizeErrors d =
     (if \<not> truthy (name d) \<or> \<not> truthy (email d) \<or> \<not> truthy (firstName d) \<or> \<not> truthy (lastName d)
      then [''Basic information incomplete (name, email required)''] else []) @
     (if \<not> truthy (earnType d) \<or> \<not> truthy (city d)
      then [''Earn type and city must be set''] else []) @
     (if missingDocs d \<noteq> []
      then [''Missing required documents: '' @ join '', '' (missingDocs d)] else [])"

definition mainToken :: "driver \<Rightarrow> claims" where
  \<comment> \<open>the session token, valid seven days, with a type and no step claim\<close>
  "mainToken d =
     \<lparr>c_id = Some (driver_id d), c_phone = phone d, c_email = email d,
      c_step = None, c_type = Some ''driver'', expiresIn = ''7d''\<rparr>"

definition finalize_update :: "driver \<Rightarrow> driver" where
  "finalize_update d = d\<lparr>verified := True, registrationStep := Some ''completed'', available := False\<rparr>"

definition completeFullRegistration :: "auth \<Rightarrow> world \<Rightarrow> (nat \<times> regBody) \<times> world" where
  "completeFullRegistration tempToken w =
     (case tempToken of
        NoToken \<Rightarrow> ((401, Msg ''Temporary token required''), w)
      | BadToken \<Rightarrow> ((401, Msg ''Invalid or expired temporary token''), w)
      | Token decoded \<Rightarrow>
         (case findDriver decoded (drivers w) of
            None \<Rightarrow> ((404, Msg ''Driver not found''), w)
          | Some x0 \<Rightarrow>
              if finalizeErrors x0 \<noteq> []
              then ((400, Incomplete ''Cannot complete registration - requirements not met''
                            (finalizeErrors x0) (missingDocs x0)
                            (getNextAllowedActions x0 (registrationStep x0))), w)
              else
               (let d = finalize_update x0
                in ((200, Finalized ''Registration completed successfully! Welcome to Errand.''
                            (mainToken d) (d\<lparr>password := None\<rparr>) ''registration_complete''),
                    notifyVerificationApproved (driver_id d)
                      (notifyRegistrationCompleted (driver_id d)
                         (w\<lparr>drivers := saveDriver d (drivers w)\<rparr>))))))"

section \<open>Notions of the specification\<close>

text \<open>
  The delivery operations as a sequence: each operation is one whole request, run to
  its end on the world the previous one left.
\<close>

datatype deliveryOp =
    ClaimDelivery nat string string
  | StartDelivery nat string string
  | CompleteDelivery nat string string

fun apply_op :: "(string \<Rightarrow> bool) \<Rightarrow> deliveryOp \<Rightarrow> world \<Rightarrow> world" where
  "apply_op oidValid (ClaimDelivery now drv delId) w = snd (acceptDelivery oidValid now drv delId w)"
| "apply_op oidValid (StartDelivery now drv delId) w = snd (startDelivery oidValid now drv delId w)"
| "apply_op oidValid (CompleteDelivery now drv delId) w = snd (completeDelivery oidValid now drv delId w)"

fun run :: "(string \<Rightarrow> bool) \<Rightarrow> deliveryOp list \<Rightarrow> world \<Rightarrow> world" where
  "run oidValid [] w = w"
| "run oidValid (x # xs) w = run oidValid xs (apply_op oidValid x w)"

text \<open>
  Requests in flight. An execution of the server is a list of store accesses: the
  pre-check of a claim, the conditional update of a claim whose pre-check has passed, a
  start, a completion. The state is the world with the claims that have passed their
  pre-check and not yet run their update. \<open>run\<close> is the executions in which the update
  of every claim follows its pre-check at once (\<open>events_of\<close>).
\<close>

datatype event =
    EvCheck string string
  | EvWrite nat string string
  | EvStart nat string string
  | EvComplete nat string string

fun exec ::
  "(string \<Rightarrow> bool) \<Rightarrow> event \<Rightarrow> world \<times> (string \<times> string) list \<Rightarrow>
   world \<times> (string \<times> string) list" where
  "exec oidValid (EvCheck drv delId) (w, inFlight) =
     (case acceptDelivery_check oidValid drv delId w of
        Some response \<Rightarrow> (w, inFlight)
      | None \<Rightarrow> (w, inFlight @ [(drv, delId)]))"
| "exec oidValid (EvWrite now drv delId) (w, inFlight) =
     (if (drv, delId) \<in> set inFlight
      then (snd (acceptDelivery_write now drv delId w), remove1 (drv, delId) inFlight)
      else (w, inFlight))"
| "exec oidValid (EvStart now drv delId) (w, inFlight) =
     (snd (startDelivery oidValid now drv delId w), inFlight)"
| "exec oidValid (EvComplete now drv delId) (w, inFlight) =
     (snd (completeDelivery oidValid now drv delId w), inFlight)"

fun exec_all ::
  "(string \<Rightarrow> bool) \<Rightarrow> event list \<Rightarrow> world \<times> (string \<times> string) list \<Rightarrow>
   world \<times> (string \<times> string) list" where
  "exec_all oidValid [] s = s"
| "exec_all oidValid (e # es) s = exec_all oidValid es (exec oidValid e s)"

fun events_of :: "deliveryOp \<Rightarrow> event list" where
  "events_of (ClaimDelivery now drv delId) = [EvCheck drv delId, EvWrite now drv delId]"
| "events_of (StartDelivery now drv delId) = [EvStart now drv delId]"
| "events_of (CompleteDelivery now drv delId) = [EvComplete now drv delId]"


text \<open>
  The effective registration step of a stored driver under a token is what
  \<open>getCurrentRegistrationStep\<close> computes from the stored step and the token's step
  claim; \<open>issuedToken\<close> is the token a response hands to the client.
\<close>

definition storedDriver :: "world \<Rightarrow> string \<Rightarrow> driver option" where
  "storedDriver w i = find (\<lambda>x. driver_id x = i) (drivers w)"

definition effectiveStep :: "world \<Rightarrow> string \<Rightarrow> claims \<Rightarrow> string option" where
  "effectiveStep w i t =
     (case storedDriver w i of
        None \<Rightarrow> None
      | Some d \<Rightarrow> Some (getCurrentRegistrationStep d (c_step t)))"

fun issuedToken :: "nat \<times> regBody \<Rightarrow> claims option" where
  "issuedToken (c, StepDone m t d n a) = Some t"
| "issuedToken (c, Finalized m t d s) = Some t"
| "issuedToken (c, Uploaded m t i k a x) = Some t"
| "issuedToken (c, b) = None"

section \<open>Example states\<close>

text \<open>Concrete documents and worlds on which the theorems below are instantiated.\<close>

definition anyId :: "string \<Rightarrow> bool" where
  "anyId i = True"

definition emptyWorld :: world where
  "emptyWorld = \<lparr>deliveries = [], drivers = [], otps = [], notifications = [], destroyed = []\<rparr>"

definition ann :: driver where
  "ann = \<lparr>driver_id = ''drvA'', name = Some ''Ann Lee'', firstName = Some ''Ann'',
          lastName = Some ''Lee'', email = Some ''ann@x.io'', phone = Some ''+15550001'',
          password = Some ''h1'', verified = False,
          registrationStep = Some ''basic_info_completed'', earnType = None, city = None,
          referralCode = None, documents = None, available = False, totalDeliveries = 0\<rparr>"

definition annToken :: claims where
  "annToken = stepToken ann ''basic_info_completed''"

definition annWorld :: world where
  "annWorld = emptyWorld\<lparr>drivers := [ann]\<rparr>"

definition resetOtp :: otp where
  "resetOtp = \<lparr>otp_phone = ''+15550001'', otp_code = ''777777'',
               otp_type = ''password_reset'', expiresAt = 900000\<rparr>"

definition staleOtp :: otp where
  "staleOtp = \<lparr>otp_phone = ''+15550001'', otp_code = ''123456'',
               otp_type = ''driver_registration'', expiresAt = 10\<rparr>"

definition licenceScan :: upload where
  "licenceScan = \<lparr>filename = Some ''f1'', originalname = Some ''photo.jpg'',
                  file_mimetype = Some ''image/jpeg'', file_size = 1000,
                  path = Some ''https://cdn/f1'', public_id = None\<rparr>"

definition scan :: document where
  "scan = \<lparr>doc_filename = Some ''f0'', originalName = Some ''scan.png'',
           mimetype = Some ''image/png'', doc_size = 20, url = ''https://cdn/f0'',
           publicId = Some ''f0'', uploadedAt = 50\<rparr>"

definition pendingParcel :: delivery where
  "pendingParcel = \<lparr>delivery_id = ''d0'', senderId = ''s1'', driverId = Null, price = 10,
                    totalCost = 10, status = Pending, acceptedAt = None, startedAt = None,
                    completedAt = None, createdAt = 100, updatedAt = 100\<rparr>"

definition pendingWorld :: world where
  "pendingWorld = emptyWorld\<lparr>deliveries := [pendingParcel]\<rparr>"

text \<open>A driver with every finalisation prerequisite, and the same driver without name parts.\<close>

definition cara :: driver where
  "cara = \<lparr>driver_id = ''drvC'', name = Some ''Cara Diaz'', firstName = Some ''Cara'',
           lastName = Some ''Diaz'', email = Some ''cara@x.io'', phone = Some ''+15550003'',
           password = Some ''h3'', verified = False,
           registrationStep = Some ''documents_uploading'', earnType = Some ''car'',
           city = Some ''Lagos'', referralCode = None,
           documents = Some [(''driversLicense'', scan), (''profilePhoto'', scan)],
           available = False, totalDeliveries = 0\<rparr>"

definition caraNoParts :: driver where
  "caraNoParts = cara\<lparr>firstName := None, lastName := None\<rparr>"

definition caraToken :: claims where
  "caraToken = stepToken cara ''documents_uploading''"

text \<open>
  The sequence of the registration example: \<open>setupEarnType\<close> on a driver whose basic
  information is complete, then \<open>completeRegistration\<close> again with the token the first
  call issued.
\<close>

definition afterEarnType :: "(nat \<times> regBody) \<times> world" where
  "afterEarnType = setupEarnType (Some ''car'') (Some ''Lagos'') None (Token annToken) annWorld"

definition afterBasicInfo ::
  "(string \<Rightarrow> string \<Rightarrow> bool) \<Rightarrow> (string \<Rightarrow> string) \<Rightarrow> (nat \<times> regBody) \<times> world" where
  "afterBasicInfo bcrypt_compare bcrypt_hash =
     completeRegistration bcrypt_compare bcrypt_hash ''drvNew''
       (Some ''Ann'') (Some ''Lee'') (Some ''ann@x.io'') (Some ''secret1'')
       (Token (stepToken ann ''earn_type_completed'')) (snd afterEarnType)"

definition caraWorld :: world where
  "caraWorld = emptyWorld\<lparr>drivers := [cara]\<rparr>"

text \<open>A driver whose registration is finalised, holding the session token.\<close>

definition caraDone :: driver where
  "caraDone = finalize_update cara"

definition caraDoneWorld :: world where
  "caraDoneWorld = emptyWorld\<lparr>drivers := [caraDone]\<rparr>"

definition afterLateEarnType :: "(nat \<times> regBody) \<times> world" where
  "afterLateEarnType =
     setupEarnType (Some ''truck'') (Some ''Lagos'') None (Token (mainToken caraDone)) caraDoneWorld"

text \<open>Two unclaimed deliveries, and the states after driver \<open>drvA\<close> claims and starts the first.\<close>

definition parcel1 :: delivery where
  "parcel1 = \<lparr>delivery_id = ''d1'', senderId = ''s1'', driverId = Null, price = 25,
              totalCost = 25, status = Upcoming, acceptedAt = None, startedAt = None,
              completedAt = None, createdAt = 100, updatedAt = 100\<rparr>"

definition parcel2 :: delivery where
  "parcel2 = \<lparr>delivery_id = ''d2'', senderId = ''s2'', driverId = Missing, price = 0,
              totalCost = 0, status = Upcoming, acceptedAt = None, startedAt = None,
              completedAt = None, createdAt = 200, updatedAt = 200\<rparr>"

definition freeWorld :: world where
  "freeWorld = emptyWorld\<lparr>deliveries := [parcel1, parcel2], drivers := [ann]\<rparr>"

definition busyWorld :: world where
  "busyWorld = freeWorld\<lparr>deliveries := [claim_update ''drvA'' 300 parcel1, parcel2]\<rparr>"

definition transitWorld :: world where
  "transitWorld =
     freeWorld\<lparr>deliveries := [start_update 400 (claim_update ''drvA'' 300 parcel1), parcel2]\<rparr>"

text \<open>Stand-ins for the password functions where a closed instance is needed.\<close>

definition plainCompare :: "string \<Rightarrow> string \<Rightarrow> bool" where
  "plainCompare p h = (h = p)"

definition plainHash :: "string \<Rightarrow> string" where
  "plainHash p = p"

section \<open>Properties of the store primitives\<close>

lemma findOneAndUpdate_none:
  "(\<forall>x\<in>set xs. \<not> P x) \<Longrightarrow> findOneAndUpdate P f xs = (None, xs)"
  by (induction xs) auto

section \<open>Phone verification codes\<close>

lemma find_phone_None:
  "(find (\<lambda>x. phone x = Some p) ds = None) = (\<forall>x\<in>set ds. phone x \<noteq> Some p)"
  by (auto simp: find_None_iff)

text \<open>
  C9. The code issued by \<open>registerPhone\<close> and by \<open>resendOtp\<close> is the constant
  \<open>"123456"\<close>, whatever the phone number, the time and the state of the store, and the
  response body carries it: for a non-empty phone number, \<open>registerPhone\<close> on a phone
  no driver has stores and returns that code, and \<open>resendOtp\<close> does so in every state.
\<close>

theorem verification_code_constant:
  assumes "p \<noteq> []"
  shows "generateOTP = ''123456'' \<and>
         ((\<forall>x\<in>set (drivers w). phone x \<noteq> Some p) \<longrightarrow>
            registerPhone now (Some p) w =
              ((200, OtpIssued ''OTP sent successfully'' (Some p) ''123456''),
               w\<lparr>otps := filter (\<lambda>c. otp_phone c \<noteq> p) (otps w) @
                    [\<lparr>otp_phone = p, otp_code = ''123456'', otp_type = ''driver_registration'',
                      expiresAt = now + 300000\<rparr>]\<rparr>)) \<and>
         resendOtp now (Some p) w =
           ((200, OtpIssued ''OTP resent successfully'' None ''123456''),
            w\<lparr>otps := filter (\<lambda>c. \<not> (otp_phone c = p \<and> otp_type c = ''driver_registration'')) (otps w) @
                 [\<lparr>otp_phone = p, otp_code = ''123456'', otp_type = ''driver_registration'',
                   expiresAt = now + 300000\<rparr>]\<rparr>)"
proof (intro conjI impI)
  show "generateOTP = ''123456''" by (simp add: generateOTP_def)
next
  assume "\<forall>x\<in>set (drivers w). phone x \<noteq> Some p"
  then have "find (\<lambda>x. phone x = Some p) (drivers w) = None"
    by (simp add: find_phone_None)
  with assms show "registerPhone now (Some p) w =
      ((200, OtpIssued ''OTP sent successfully'' (Some p) ''123456''),
       w\<lparr>otps := filter (\<lambda>c. otp_phone c \<noteq> p) (otps w) @
            [\<lparr>otp_phone = p, otp_code = ''123456'', otp_type = ''driver_registration'',
              expiresAt = now + 300000\<rparr>]\<rparr>)"
    by (simp add: registerPhone_def newOtp_def generateOTP_def)
next
  from assms show "resendOtp now (Some p) w =
      ((200, OtpIssued ''OTP resent successfully'' None ''123456''),
       w\<lparr>otps := filter (\<lambda>c. \<not> (otp_phone c = p \<and> otp_type c = ''driver_registration'')) (otps w) @
            [\<lparr>otp_phone = p, otp_code = ''123456'', otp_type = ''driver_registration'',
              expiresAt = now + 300000\<rparr>]\<rparr>)"
    by (simp add: resendOtp_def newOtp_def generateOTP_def)
qed

theorem verification_code_constant_witness:
  "fst (registerPhone 1000 (Some ''+15550002'') annWorld) =
     (200, OtpIssued ''OTP sent successfully'' (Some ''+15550002'') ''123456'') \<and>
   fst (resendOtp 2000 (Some ''+15550002'') annWorld) =
     (200, OtpIssued ''OTP resent successfully'' None ''123456'')"
  using verification_code_constant [of "''+15550002''" annWorld 1000]
        verification_code_constant [of "''+15550002''" annWorld 2000]
  by (simp add: annWorld_def emptyWorld_def ann_def)

text \<open>
  C10 as stated fails: \<open>resendOtp\<close> deletes with the filter \<open>{ phone, type:
  'driver_registration' }\<close>, so a code of another type stored for the same phone is
  still there after the call.
\<close>

theorem resend_has_no_duplicate_guard_counterexample:
  "otp_phone resetOtp = ''+15550001'' \<and>
   otps (snd (resendOtp 1000 (Some ''+15550001'') (annWorld\<lparr>otps := [resetOtp, staleOtp]\<rparr>))) =
     [resetOtp,
      \<lparr>otp_phone = ''+15550001'', otp_code = ''123456'', otp_type = ''driver_registration'',
       expiresAt = 301000\<rparr>]"
  by (simp add: resendOtp_def newOtp_def generateOTP_def annWorld_def emptyWorld_def
      resetOtp_def staleOtp_def)

text \<open>
  C10, amended. The duplicate-phone guard is in \<open>registerPhone\<close> only. For every
  non-empty phone number, registered or not and in every state, \<open>resendOtp\<close> answers
  200 with the code: it removes the codes of type \<open>driver_registration\<close> stored for the
  phone, keeps every other code, and stores the fresh code, which is then the only
  registration code of the phone. Whatever the request, \<open>resendOtp\<close> never answers 409,
  while \<open>registerPhone\<close> answers 409 and stores nothing when a driver has the phone.
\<close>

theorem resend_has_no_duplicate_guard:
  assumes "p \<noteq> []"
  shows "resendOtp now (Some p) w =
           ((200, OtpIssued ''OTP resent successfully'' None ''123456''),
            w\<lparr>otps := filter (\<lambda>c. \<not> (otp_phone c = p \<and> otp_type c = ''driver_registration''))
                            (otps w) @
                 [\<lparr>otp_phone = p, otp_code = ''123456'', otp_type = ''driver_registration'',
                   expiresAt = now + 300000\<rparr>]\<rparr>) \<and>
         filter (\<lambda>c. otp_phone c = p \<and> otp_type c = ''driver_registration'')
                (otps (snd (resendOtp now (Some p) w))) =
           [\<lparr>otp_phone = p, otp_code = ''123456'', otp_type = ''driver_registration'',
             expiresAt = now + 300000\<rparr>] \<and>
         filter (\<lambda>c. \<not> (otp_phone c = p \<and> otp_type c = ''driver_registration''))
                (otps (snd (resendOtp now (Some p) w))) =
           filter (\<lambda>c. \<not> (otp_phone c = p \<and> otp_type c = ''driver_registration'')) (otps w) \<and>
         fst (fst (resendOtp now2 ph w2)) \<noteq> 409 \<and>
         ((\<exists>x\<in>set (drivers w). phone x = Some p) \<longrightarrow>
            registerPhone now (Some p) w = ((409, Msg ''Phone number already registered''), w))"
proof -
  have b: "resendOtp now (Some p) w =
      ((200, OtpIssued ''OTP resent successfully'' None ''123456''),
       w\<lparr>otps := filter (\<lambda>c. \<not> (otp_phone c = p \<and> otp_type c = ''driver_registration'')) (otps w) @
            [\<lparr>otp_phone = p, otp_code = ''123456'', otp_type = ''driver_registration'',
              expiresAt = now + 300000\<rparr>]\<rparr>)"
    using assms by (simp add: resendOtp_def newOtp_def generateOTP_def)
  have c: "filter (\<lambda>c. otp_phone c = p \<and> otp_type c = ''driver_registration'')
             (filter (\<lambda>c. \<not> (otp_phone c = p \<and> otp_type c = ''driver_registration'')) (otps w)) = []"
    by (simp add: filter_empty_conv)
  have d: "fst (fst (resendOtp now2 ph w2)) \<noteq> 409"
    by (simp add: resendOtp_def split: option.split)
  have a: "(\<exists>x\<in>set (drivers w). phone x = Some p) \<longrightarrow>
            registerPhone now (Some p) w = ((409, Msg ''Phone number already registered''), w)"
  proof
    assume "\<exists>x\<in>set (drivers w). phone x = Some p"
    then have "find (\<lambda>x. phone x = Some p) (drivers w) \<noteq> None"
      by (auto simp: find_phone_None)
    then obtain y where "find (\<lambda>x. phone x = Some p) (drivers w) = Some y" by blast
    with assms show "registerPhone now (Some p) w = ((409, Msg ''Phone number already registered''), w)"
      by (simp add: registerPhone_def)
  qed
  from a b c d show ?thesis by simp
qed

theorem resend_has_no_duplicate_guard_witness:
  "registerPhone 1000 (Some ''+15550001'') (annWorld\<lparr>otps := [staleOtp]\<rparr>) =
     ((409, Msg ''Phone number already registered''), annWorld\<lparr>otps := [staleOtp]\<rparr>) \<and>
   fst (resendOtp 1000 (Some ''+15550001'') (annWorld\<lparr>otps := [staleOtp]\<rparr>)) =
     (200, OtpIssued ''OTP resent successfully'' None ''123456'') \<and>
   otps (snd (resendOtp 1000 (Some ''+15550001'') (annWorld\<lparr>otps := [staleOtp]\<rparr>))) =
     [\<lparr>otp_phone = ''+15550001'', otp_code = ''123456'', otp_type = ''driver_registration'',
       expiresAt = 301000\<rparr>] \<and>
   fst (resendOtp 1000 (Some ''+15550009'') emptyWorld) =
     (200, OtpIssued ''OTP resent successfully'' None ''123456'')"
  using resend_has_no_duplicate_guard [of "''+15550001''" 1000 "annWorld\<lparr>otps := [staleOtp]\<rparr>"]
        resend_has_no_duplicate_guard [of "''+15550009''" 1000 emptyWorld]
  by (simp add: annWorld_def emptyWorld_def ann_def staleOtp_def)

section \<open>Document upload\<close>

lemma uploadDocument_notifications:
  "notifications (snd (uploadDocument saveOk now documentType file tempToken w)) = notifications w"
  by (simp add: uploadDocument_def Let_def split: option.split auth.split)

text \<open>
  C8. A successful \<open>uploadDocument\<close> (valid document type, blob stored, driver record
  written, answer 200) sends no \<open>document_uploaded\<close> notification: on the world with one
  driver and no notification, the upload of a profile photo is answered 200, the driver
  record has the document, and the notification collection is still empty.
\<close>

theorem upload_sends_no_notification:
  "fst (fst (uploadDocument True 5000 ''profilePhoto'' (Some licenceScan) (Token annToken) annWorld)) = 200 \<and>
   map documentKeys (drivers (snd (uploadDocument True 5000 ''profilePhoto'' (Some licenceScan)
                                     (Token annToken) annWorld))) = [[''profilePhoto'']] \<and>
   notifications (snd (uploadDocument True 5000 ''profilePhoto'' (Some licenceScan)
                         (Token annToken) annWorld)) = []"
  by (simp add: uploadDocument_def Let_def annWorld_def emptyWorld_def ann_def annToken_def
      stepToken_def licenceScan_def validDocTypes_def findDriver_def uploadWarnings_def
      or_else_def getCurrentRegistrationStep_def stepIndex_def stepOrder_def saveDriver_def
      documentKeys_def)

theorem upload_sends_no_notification_witness:
  "length (notifications (snd (uploadDocument True 5000 ''profilePhoto'' (Some licenceScan)
                                 (Token annToken) annWorld))) = 0"
  using upload_sends_no_notification
  by simp

section \<open>Delivery directory\<close>

lemma findAvailable_set:
  "set (findAvailable ds) = {d \<in> set ds. status d = Upcoming \<and> unclaimed d}"
  by (auto simp: findAvailable_def sortNewestFirst_def unclaimed_def)

lemma findAvailable_newest_first:
  "sorted_wrt (\<lambda>a b. createdAt b \<le> createdAt a) (findAvailable ds)"
proof -
  have "sorted (map (\<lambda>d. - int (createdAt d)) (findAvailable ds))"
    by (simp add: findAvailable_def sortNewestFirst_def)
  then show ?thesis
    by (simp add: sorted_map)
qed

lemma getAvailableDeliveries_set:
  "set (out_deliveries (snd (getAvailableDeliveries w))) = {d \<in> set (deliveries w). unclaimed d}"
  by (auto simp: getAvailableDeliveries_def Let_def sortNewestFirst_def)

text \<open>
  C5. \<open>getAvailableDeliveries\<close> filters on the driver id only. On a store holding one
  delivery with status \<open>pending\<close> and a null driver id it returns that delivery, which the
  static \<open>findAvailable\<close> of the model leaves out.
\<close>

theorem available_lists_non_upcoming:
  "out_deliveries (snd (getAvailableDeliveries pendingWorld)) = [pendingParcel] \<and>
   status pendingParcel = Pending \<and>
   findAvailable (deliveries pendingWorld) = []"
  by (simp add: getAvailableDeliveries_def Let_def pendingWorld_def emptyWorld_def
      pendingParcel_def sortNewestFirst_def unclaimed_def findAvailable_def)

theorem available_lists_non_upcoming_witness:
  "out_deliveries (snd (getAvailableDeliveries pendingWorld)) \<noteq>
     findAvailable (deliveries pendingWorld)"
  using available_lists_non_upcoming
  by simp

section \<open>Registration step\<close>

lemmas example_defs =
  annWorld_def emptyWorld_def ann_def annToken_def stepToken_def cara_def caraNoParts_def
  caraToken_def caraWorld_def caraDone_def caraDoneWorld_def scan_def finalize_update_def
  mainToken_def

lemmas step_defs =
  getCurrentRegistrationStep_def stepIndex_def stepOrder_def effectiveStep_def storedDriver_def

text \<open>
  C3. The stored step is overwritten by \<open>completeRegistration\<close> and by \<open>setupEarnType\<close>
  without a comparison. After \<open>setupEarnType\<close> the stored step, the issued token and the
  effective step are \<open>earn_type_completed\<close>; \<open>completeRegistration\<close> with that token is
  answered 200, stores \<open>basic_info_completed\<close> and issues a token claiming
  \<open>basic_info_completed\<close>, so the effective step under the token in force is
  \<open>basic_info_completed\<close>, whatever the password functions are.
\<close>

theorem registration_step_regresses:
  "fst (fst afterEarnType) = 200 \<and>
   issuedToken (fst afterEarnType) = Some (stepToken ann ''earn_type_completed'') \<and>
   effectiveStep (snd afterEarnType) ''drvA'' (stepToken ann ''earn_type_completed'') =
     Some ''earn_type_completed'' \<and>
   fst (fst (afterBasicInfo bcrypt_compare bcrypt_hash)) = 200 \<and>
   issuedToken (fst (afterBasicInfo bcrypt_compare bcrypt_hash)) =
     Some (stepToken ann ''basic_info_completed'') \<and>
   map registrationStep (drivers (snd (afterBasicInfo bcrypt_compare bcrypt_hash))) =
     [Some ''basic_info_completed''] \<and>
   effectiveStep (snd (afterBasicInfo bcrypt_compare bcrypt_hash)) ''drvA''
     (stepToken ann ''basic_info_completed'') = Some ''basic_info_completed''"
  by (simp add: afterEarnType_def afterBasicInfo_def setupEarnType_def completeRegistration_def
      example_defs step_defs validEarnTypes_def findDriver_def saveDriver_def Let_def
      emailRegex_def isSpace_def asciiSpaces_def unicodeSpaces_def jsLength_def
      notifyProfileUpdated_def createNotification_def
      getNextAllowedActions_def documentKeys_def missingDocs_def requiredDocs_def)

theorem registration_step_regresses_witness:
  "effectiveStep (snd afterEarnType) ''drvA'' (stepToken ann ''earn_type_completed'') =
     Some ''earn_type_completed'' \<and>
   effectiveStep (snd (afterBasicInfo plainCompare plainHash)) ''drvA''
     (stepToken ann ''basic_info_completed'') \<noteq> Some ''earn_type_completed''"
  using registration_step_regresses [of plainCompare plainHash]
  by simp

text \<open>
  The same overwrite on a finalised driver: \<open>setupEarnType\<close> with the session token takes
  the stored step from \<open>completed\<close> back to \<open>earn_type_completed\<close>, under the session
  token (which has no step claim) and under the token the call issues.
\<close>

lemma earn_type_regresses_completed_driver:
  "effectiveStep caraDoneWorld ''drvC'' (mainToken caraDone) = Some ''completed'' \<and>
   fst (fst afterLateEarnType) = 200 \<and>
   issuedToken (fst afterLateEarnType) = Some (stepToken caraDone ''earn_type_completed'') \<and>
   effectiveStep (snd afterLateEarnType) ''drvC'' (mainToken caraDone) = Some ''earn_type_completed'' \<and>
   effectiveStep (snd afterLateEarnType) ''drvC'' (stepToken caraDone ''earn_type_completed'') =
     Some ''earn_type_completed''"
  by (simp add: afterLateEarnType_def setupEarnType_def
      example_defs step_defs validEarnTypes_def findDriver_def saveDriver_def Let_def
      notifyProfileUpdated_def createNotification_def
      getNextAllowedActions_def documentKeys_def missingDocs_def requiredDocs_def)

section \<open>Finalisation\<close>

lemma findDriver_mem: "findDriver decoded ds = Some d \<Longrightarrow> d \<in> set ds"
  by (auto simp: findDriver_def find_Some_iff split: if_splits)

lemma find_saveDriver:
  "d \<in> set ds \<Longrightarrow> driver_id d' = driver_id d \<Longrightarrow>
     find (\<lambda>x. driver_id x = driver_id d) (saveDriver d' ds) = Some d'"
  by (induction ds) (auto simp: saveDriver_def)

lemma missingDocs_empty:
  "(missingDocs d = []) =
     (''driversLicense'' \<in> set (documentKeys d) \<and> ''profilePhoto'' \<in> set (documentKeys d))"
  by (auto simp: missingDocs_def requiredDocs_def)

lemma finalizeErrors_empty:
  "(finalizeErrors d = []) =
     (truthy (name d) \<and> truthy (email d) \<and> truthy (firstName d) \<and> truthy (lastName d) \<and>
      truthy (earnType d) \<and> truthy (city d) \<and>
      ''driversLicense'' \<in> set (documentKeys d) \<and> ''profilePhoto'' \<in> set (documentKeys d))"
  by (auto simp: finalizeErrors_def missingDocs_empty)

text \<open>
  C4 as stated fails: a driver with name, email, earn type, city and both required
  documents, but without first and last name, is refused.
\<close>

theorem finalize_requirements_counterexample:
  "truthy (name caraNoParts) \<and> truthy (email caraNoParts) \<and>
   truthy (earnType caraNoParts) \<and> truthy (city caraNoParts) \<and>
   ''driversLicense'' \<in> set (documentKeys caraNoParts) \<and>
   ''profilePhoto'' \<in> set (documentKeys caraNoParts) \<and>
   fst (completeFullRegistration (Token caraToken) (emptyWorld\<lparr>drivers := [caraNoParts]\<rparr>)) =
     (400, Incomplete ''Cannot complete registration - requirements not met''
             [''Basic information incomplete (name, email required)''] []
             [''complete_registration''])"
  by (simp add: completeFullRegistration_def findDriver_def finalizeErrors_def missingDocs_def
      requiredDocs_def documentKeys_def getNextAllowedActions_def example_defs)

text \<open>
  C4, amended. For a token that resolves to a stored driver, \<open>completeFullRegistration\<close>
  succeeds exactly when name, email, first name, last name, earn type and city are set
  and the documents have the keys \<open>driversLicense\<close> and \<open>profilePhoto\<close>. On success the
  driver is saved with \<open>verified = true\<close>, step \<open>completed\<close> and \<open>available = false\<close>, every
  other field and every other driver as before; the answer is 200 with the seven-day
  session token (type \<open>driver\<close>, no step claim), and \<open>registration_completed\<close> and
  \<open>verification_approved\<close> are sent. On failure the answer is 400 with one error for each
  unmet group of requirements and the list of the missing required documents, and the
  world is unchanged.
\<close>

theorem finalize_requirements:
  assumes "findDriver decoded (drivers w) = Some d"
  shows
    "(let keys = (case documents d of None \<Rightarrow> [] | Some kv \<Rightarrow> map fst kv);
          licence = (''driversLicense'' \<in> set keys);
          photo = (''profilePhoto'' \<in> set keys);
          basic = (truthy (name d) \<and> truthy (email d) \<and> truthy (firstName d) \<and> truthy (lastName d));
          earn = (truthy (earnType d) \<and> truthy (city d));
          saved = d\<lparr>verified := True, registrationStep := Some ''completed'', available := False\<rparr>
      in completeFullRegistration (Token decoded) w =
          (if basic \<and> earn \<and> licence \<and> photo
           then ((200, Finalized ''Registration completed successfully! Welcome to Errand.''
                         \<lparr>c_id = Some (driver_id d), c_phone = phone d, c_email = email d,
                          c_step = None, c_type = Some ''driver'', expiresIn = ''7d''\<rparr>
                         (saved\<lparr>password := None\<rparr>)
                         ''registration_complete''),
                 w\<lparr>drivers := map (\<lambda>x. if driver_id x = driver_id d then saved else x) (drivers w),
                   notifications := notifications w @
                     [\<lparr>userId = driver_id d, ntype = ''registration_completed'',
                       ndata = StepData ''completed'', priority = ''high''\<rparr>,
                      \<lparr>userId = driver_id d, ntype = ''verification_approved'',
                       ndata = NoData, priority = ''high''\<rparr>]\<rparr>)
           else ((400, Incomplete ''Cannot complete registration - requirements not met''
                         ((if basic then []
                           else [''Basic information incomplete (name, email required)'']) @
                          (if earn then [] else [''Earn type and city must be set'']) @
                          (if licence \<and> photo then []
                           else [''Missing required documents: '' @
                                 (if licence then ''profilePhoto''
                                  else if photo then ''driversLicense''
                                  else ''driversLicense, profilePhoto'')]))
                         ((if licence then [] else [''driversLicense'']) @
                          (if photo then [] else [''profilePhoto'']))
                         (getNextAllowedActions d (registrationStep d))), w)) \<and>
         find (\<lambda>x. driver_id x = driver_id d)
              (map (\<lambda>x. if driver_id x = driver_id d then saved else x) (drivers w)) = Some saved)"
proof -
  have main: "completeFullRegistration (Token decoded) w =
          (if finalizeErrors d = []
           then ((200, Finalized ''Registration completed successfully! Welcome to Errand.''
                         (mainToken d) ((finalize_update d)\<lparr>password := None\<rparr>)
                         ''registration_complete''),
                 w\<lparr>drivers := saveDriver (finalize_update d) (drivers w),
                   notifications := notifications w @
                     [\<lparr>userId = driver_id d, ntype = ''registration_completed'',
                       ndata = StepData ''completed'', priority = ''high''\<rparr>,
                      \<lparr>userId = driver_id d, ntype = ''verification_approved'',
                       ndata = NoData, priority = ''high''\<rparr>]\<rparr>)
           else ((400, Incomplete ''Cannot complete registration - requirements not met''
                         (finalizeErrors d) (missingDocs d)
                         (getNextAllowedActions d (registrationStep d))), w))"
    using assms
    by (simp add: completeFullRegistration_def Let_def notifyVerificationApproved_def
        notifyRegistrationCompleted_def createNotification_def finalize_update_def mainToken_def)
  have stored: "find (\<lambda>x. driver_id x = driver_id d) (saveDriver (finalize_update d) (drivers w)) =
           Some (finalize_update d)"
    using find_saveDriver [OF findDriver_mem [OF assms], of "finalize_update d"]
    by (simp add: finalize_update_def)
  have missing: "missingDocs d =
      (if ''driversLicense'' \<in> set (documentKeys d) then [] else [''driversLicense'']) @
      (if ''profilePhoto'' \<in> set (documentKeys d) then [] else [''profilePhoto''])"
    by (simp add: missingDocs_def requiredDocs_def)
  have errors: "finalizeErrors d =
      (if truthy (name d) \<and> truthy (email d) \<and> truthy (firstName d) \<and> truthy (lastName d)
       then [] else [''Basic information incomplete (name, email required)'']) @
      (if truthy (earnType d) \<and> truthy (city d) then [] else [''Earn type and city must be set'']) @
      (if ''driversLicense'' \<in> set (documentKeys d) \<and> ''profilePhoto'' \<in> set (documentKeys d)
       then []
       else [''Missing required documents: '' @
             (if ''driversLicense'' \<in> set (documentKeys d) then ''profilePhoto''
              else if ''profilePhoto'' \<in> set (documentKeys d) then ''driversLicense''
              else ''driversLicense, profilePhoto'')])"
    by (simp add: finalizeErrors_def missing)
  have keys: "documentKeys d = (case documents d of None \<Rightarrow> [] | Some kv \<Rightarrow> map fst kv)"
    by (simp add: documentKeys_def)
  show ?thesis
    unfolding Let_def keys [symmetric] main
    using stored
    by (simp add: errors missing finalizeErrors_empty saveDriver_def finalize_update_def
        mainToken_def)
qed

theorem finalize_requirements_witness:
  "findDriver caraToken (drivers caraWorld) = Some cara \<and>
   fst (fst (completeFullRegistration (Token caraToken) caraWorld)) = 200 \<and>
   map registrationStep (drivers (snd (completeFullRegistration (Token caraToken) caraWorld))) =
     [Some ''completed''] \<and>
   map verified (drivers (snd (completeFullRegistration (Token caraToken) caraWorld))) = [True] \<and>
   map available (drivers (snd (completeFullRegistration (Token caraToken) caraWorld))) = [False]"
proof -
  have h: "findDriver caraToken (drivers caraWorld) = Some cara"
    by (simp add: findDriver_def example_defs)
  show ?thesis
    using h finalize_requirements [OF h]
    by (simp add: documentKeys_def saveDriver_def example_defs)
qed

section \<open>Delivery transitions\<close>

lemma findOneAndUpdate_find:
  "findOneAndUpdate P f xs =
     (case find P xs of
        None \<Rightarrow> (None, xs)
      | Some x \<Rightarrow> (Some (f x), xs[length (takeWhile (\<lambda>y. \<not> P y) xs) := f x]))"
  by (induction xs) (auto split: option.splits)

lemma findOneAndUpdate_filter_le:
  "(\<forall>x\<in>set xs. P x \<longrightarrow> Q (f x) \<longrightarrow> Q x) \<Longrightarrow>
     length (filter Q (snd (findOneAndUpdate P f xs))) \<le> length (filter Q xs)"
  by (induction xs) (auto split: prod.splits)

lemma findOneAndUpdate_filter_Suc:
  "length (filter Q (snd (findOneAndUpdate P f xs))) \<le> Suc (length (filter Q xs))"
  by (induction xs) (auto split: prod.splits)

lemma findOneAndUpdate_set:
  "y \<in> set (snd (findOneAndUpdate P f xs)) \<Longrightarrow> y \<in> set xs \<or> (\<exists>x\<in>set xs. P x \<and> y = f x)"
  by (induction xs) (auto split: prod.splits if_splits)

lemma findOneAndUpdate_distinct:
  assumes "distinct (map key xs)" and "x \<in> set xs" and "P x" and "\<forall>y. P y \<longrightarrow> key y = key x"
  shows "findOneAndUpdate P f xs = (Some (f x), map (\<lambda>y. if key y = key x then f x else y) xs)"
  using assms(1,2)
proof (induction xs)
  case Nil
  then show ?case by simp
next
  case (Cons a xs)
  show ?case
  proof (cases "a = x")
    case True
    from Cons.prems(1) True have "key x \<notin> key ` set xs" by simp
    then have "\<forall>y\<in>set xs. key y \<noteq> key x" by (auto simp: image_iff)
    then have "map (\<lambda>y. if key y = key x then f x else y) xs = xs"
      by (induction xs) auto
    with True assms(3) show ?thesis by simp
  next
    case False
    with Cons.prems have mem: "x \<in> set xs" by simp
    from Cons.prems(1) have dist: "distinct (map key xs)" by simp
    from Cons.prems(1) have "key a \<notin> key ` set xs" by simp
    with mem have neq: "key a \<noteq> key x" by (auto simp: image_iff)
    with assms(4) have notP: "\<not> P a" by blast
    have "findOneAndUpdate P f xs = (Some (f x), map (\<lambda>y. if key y = key x then f x else y) xs)"
      by (rule Cons.IH [OF dist mem])
    with notP neq show ?thesis by simp
  qed
qed

subsection \<open>The three conditional updates\<close>

lemma claim_update_simps [simp]:
  "delivery_id (claim_update drv now d) = delivery_id d"
  "status (claim_update drv now d) = Accepted"
  "driverId (claim_update drv now d) = Ref drv"
  "acceptedAt (claim_update drv now d) = Some now"
  by (simp_all add: claim_update_def)

lemma start_update_simps [simp]:
  "delivery_id (start_update now d) = delivery_id d"
  "status (start_update now d) = InTransit"
  "driverId (start_update now d) = driverId d"
  "startedAt (start_update now d) = Some now"
  by (simp_all add: start_update_def)

lemma complete_update_simps [simp]:
  "delivery_id (complete_update now d) = delivery_id d"
  "status (complete_update now d) = Completed"
  "driverId (complete_update now d) = driverId d"
  "completedAt (complete_update now d) = Some now"
  "price (complete_update now d) = price d"
  by (simp_all add: complete_update_def)

lemma acceptDelivery_deliveries:
  "deliveries (snd (acceptDelivery oidValid now drv delId w)) =
     (if isValidObjectId oidValid delId \<and> find (active_for drv) (deliveries w) = None
      then snd (findOneAndUpdate (claimable delId) (claim_update drv now) (deliveries w))
      else deliveries w)"
  by (auto simp: acceptDelivery_def findOneAndUpdate_find notifyDeliveryAccepted_def
      createNotification_def incTotalDeliveries_def split: option.splits)

lemma startDelivery_deliveries:
  "deliveries (snd (startDelivery oidValid now drv delId w)) =
     (if isValidObjectId oidValid delId
      then snd (findOneAndUpdate (startable drv delId) (start_update now) (deliveries w))
      else deliveries w)"
  by (auto simp: startDelivery_def findOneAndUpdate_find notifyDeliveryStarted_def
      createNotification_def split: option.splits)

lemma completeDelivery_deliveries:
  "deliveries (snd (completeDelivery oidValid now drv delId w)) =
     (if isValidObjectId oidValid delId
      then snd (findOneAndUpdate (completable drv delId) (complete_update now) (deliveries w))
      else deliveries w)"
  by (auto simp: completeDelivery_def findOneAndUpdate_find notifyDeliveryCompleted_def
      notifyPaymentSuccess_def createNotification_def Let_def split: option.splits)

lemma acceptDelivery_succeeded:
  "succeeded (fst (acceptDelivery oidValid now drv delId w)) =
     (isValidObjectId oidValid delId \<and> find (active_for drv) (deliveries w) = None \<and>
      find (claimable delId) (deliveries w) \<noteq> None)"
  by (auto simp: acceptDelivery_def findOneAndUpdate_find succeeded_def split: option.splits)

lemma acceptDelivery_failed_unchanged:
  "\<not> succeeded (fst (acceptDelivery oidValid now drv delId w)) \<Longrightarrow>
     snd (acceptDelivery oidValid now drv delId w) = w"
  by (auto simp: acceptDelivery_def findOneAndUpdate_find succeeded_def split: option.splits)

subsection \<open>Start and its retry\<close>

text \<open>
  C6. For a well-formed delivery id and a store whose ids are distinct, \<open>startDelivery\<close>
  on a delivery that is \<open>accepted\<close> and owned by the caller answers 200 with the delivery
  set to \<open>in-transit\<close> and \<open>startedAt\<close> set; the immediate retry by the same driver is
  answered with the invalid-transition failure and leaves the whole world, so the
  delivery's status and every timestamp, as the first call left it.
\<close>

theorem start_twice:
  assumes valid: "isValidObjectId oidValid delId"
      and ids: "distinct (map delivery_id (deliveries w))"
      and d: "d \<in> set (deliveries w)" "delivery_id d = delId" "status d = Accepted"
             "driverId d = Ref drv"
  shows "fst (startDelivery oidValid t1 drv delId w) =
           (200, DeliveryOk (d\<lparr>status := InTransit, startedAt := Some t1, updatedAt := t1\<rparr>)
                   ''Delivery started successfully'') \<and>
         deliveries (snd (startDelivery oidValid t1 drv delId w)) =
           map (\<lambda>x. if delivery_id x = delId
                    then d\<lparr>status := InTransit, startedAt := Some t1, updatedAt := t1\<rparr> else x)
               (deliveries w) \<and>
         startDelivery oidValid t2 drv delId (snd (startDelivery oidValid t1 drv delId w)) =
           (InvalidTransition, snd (startDelivery oidValid t1 drv delId w))"
proof -
  let ?d' = "start_update t1 d"
  let ?ds' = "map (\<lambda>y. if delivery_id y = delivery_id d then ?d' else y) (deliveries w)"
  let ?w1 = "snd (startDelivery oidValid t1 drv delId w)"
  have P: "startable drv delId d" using d by (simp add: startable_def)
  have key: "\<forall>y. startable drv delId y \<longrightarrow> delivery_id y = delivery_id d"
    using d(2) by (simp add: startable_def)
  have upd: "findOneAndUpdate (startable drv delId) (start_update t1) (deliveries w) = (Some ?d', ?ds')"
    by (rule findOneAndUpdate_distinct [OF ids d(1) P key])
  have first: "fst (startDelivery oidValid t1 drv delId w) =
                 (200, DeliveryOk ?d' ''Delivery started successfully'')"
    using valid upd by (simp add: startDelivery_def)
  have dels: "deliveries ?w1 = ?ds'"
    using valid upd by (simp add: startDelivery_deliveries)
  have none: "\<forall>x\<in>set (deliveries ?w1). \<not> startable drv delId x"
    unfolding dels using d(2) by (auto simp: startable_def)
  have retry: "startDelivery oidValid t2 drv delId ?w1 =
                 ((400, Failure ''Delivery not found or cannot be started''), ?w1)"
    using valid findOneAndUpdate_none [OF none, of "start_update t2"]
    by (simp add: startDelivery_def)
  show ?thesis
    using first dels retry d(2) by (simp add: InvalidTransition_def start_update_def)
qed

theorem start_twice_witness:
  "fst (startDelivery anyId 400 ''drvA'' ''d1'' busyWorld) =
     (200, DeliveryOk (start_update 400 (claim_update ''drvA'' 300 parcel1))
             ''Delivery started successfully'') \<and>
   deliveries (snd (startDelivery anyId 400 ''drvA'' ''d1'' busyWorld)) = deliveries transitWorld \<and>
   startDelivery anyId 450 ''drvA'' ''d1'' (snd (startDelivery anyId 400 ''drvA'' ''d1'' busyWorld)) =
     (InvalidTransition, snd (startDelivery anyId 400 ''drvA'' ''d1'' busyWorld))"
  using start_twice [of anyId "''d1''" busyWorld "claim_update ''drvA'' 300 parcel1" "''drvA''" 400 450]
  by (simp add: isValidObjectId_def anyId_def busyWorld_def transitWorld_def freeWorld_def
      emptyWorld_def parcel1_def parcel2_def claim_update_def start_update_def)

subsection \<open>Completion\<close>

lemma earning_of_price: "earning_of d = price d"
  by (simp add: earning_of_def estimatedEarning_def)

lemma find_completable:
  "(find (completable drv delId) ds \<noteq> None) =
     (\<exists>d\<in>set ds. delivery_id d = delId \<and> status d = InTransit \<and> driverId d = Ref drv)"
  by (auto simp: find_None_iff completable_def)

text \<open>
  C7. For a well-formed delivery id, \<open>completeDelivery\<close> succeeds exactly when the store
  has a delivery with that id, status \<open>in-transit\<close> and the caller as driver. It then
  sets status \<open>completed\<close> and \<open>completedAt\<close> on that delivery, sends \<open>delivery_completed\<close>,
  and sends \<open>payment_success\<close> exactly when the price is positive, with the price as
  amount; otherwise it leaves the world unchanged.
\<close>

theorem complete_delivery:
  assumes valid: "isValidObjectId oidValid delId"
  shows "succeeded (fst (completeDelivery oidValid now drv delId w)) =
           (\<exists>d\<in>set (deliveries w).
              delivery_id d = delId \<and> status d = InTransit \<and> driverId d = Ref drv) \<and>
         (case find (completable drv delId) (deliveries w) of
            None \<Rightarrow>
              completeDelivery oidValid now drv delId w =
                ((400, Failure ''Delivery not found or cannot be completed''), w)
          | Some d \<Rightarrow>
              completeDelivery oidValid now drv delId w =
                ((200, DeliveryOk (d\<lparr>status := Completed, completedAt := Some now, updatedAt := now\<rparr>)
                         ''Delivery completed successfully''),
                 w\<lparr>deliveries :=
                      (deliveries w)[length (takeWhile (\<lambda>x. \<not> completable drv delId x) (deliveries w)) :=
                         d\<lparr>status := Completed, completedAt := Some now, updatedAt := now\<rparr>],
                   notifications := notifications w @
                     \<lparr>userId = drv, ntype = ''delivery_completed'',
                      ndata = CompletedData delId (price d), priority = ''high''\<rparr> #
                     (if price d > 0
                      then [\<lparr>userId = drv, ntype = ''payment_success'',
                             ndata = PaymentData (price d) ''delivery completion'',
                             priority = ''high''\<rparr>]
                      else [])\<rparr>))"
proof (cases "find (completable drv delId) (deliveries w)")
  case None
  with valid show ?thesis
    using find_completable [of drv delId "deliveries w"]
    by (simp add: completeDelivery_def findOneAndUpdate_find succeeded_def)
next
  case (Some d)
  then have "delivery_id d = delId" by (auto simp: find_Some_iff completable_def)
  with valid Some show ?thesis
    using find_completable [of drv delId "deliveries w"]
    by (simp add: completeDelivery_def findOneAndUpdate_find succeeded_def Let_def
        earning_of_price notifyDeliveryCompleted_def notifyPaymentSuccess_def
        createNotification_def complete_update_def)
qed

theorem complete_delivery_witness:
  "succeeded (fst (completeDelivery anyId 500 ''drvA'' ''d1'' transitWorld)) \<and>
   map status (deliveries (snd (completeDelivery anyId 500 ''drvA'' ''d1'' transitWorld))) =
     [Completed, Upcoming] \<and>
   map ndata (notifications (snd (completeDelivery anyId 500 ''drvA'' ''d1'' transitWorld))) =
     [CompletedData ''d1'' 25, PaymentData 25 ''delivery completion'']"
  using complete_delivery [of anyId "''d1''" 500 "''drvA''" transitWorld]
  by (simp add: isValidObjectId_def anyId_def transitWorld_def freeWorld_def
      emptyWorld_def parcel1_def parcel2_def claim_update_def start_update_def completable_def
      succeeded_def)

subsection \<open>Claiming\<close>

lemma find_claimable_mem:
  "find (claimable delId) ds = Some d \<Longrightarrow> d \<in> set ds \<and> claimable delId d"
  by (auto simp: find_Some_iff)

lemma filter_active_empty:
  "find (active_for drv) ds = None \<Longrightarrow> filter (active_for drv) ds = []"
  by (simp add: find_None_iff filter_empty_conv)

lemma claimed_not_claimable:
  assumes ids: "distinct (map delivery_id (deliveries w))"
      and ok: "succeeded (fst (acceptDelivery oidValid now drv delId w))"
  shows "\<forall>x\<in>set (deliveries (snd (acceptDelivery oidValid now drv delId w))). \<not> claimable delId x"
proof -
  from ok have valid: "isValidObjectId oidValid delId"
    and free: "find (active_for drv) (deliveries w) = None"
    and some: "find (claimable delId) (deliveries w) \<noteq> None"
    by (simp_all add: acceptDelivery_succeeded)
  from some obtain d where "find (claimable delId) (deliveries w) = Some d" by blast
  then have mem: "d \<in> set (deliveries w)" and cl: "claimable delId d"
    by (simp_all add: find_claimable_mem)
  from cl have idd: "delivery_id d = delId" by (simp add: claimable_def)
  have key: "\<forall>y. claimable delId y \<longrightarrow> delivery_id y = delivery_id d"
    using idd by (simp add: claimable_def)
  have "findOneAndUpdate (claimable delId) (claim_update drv now) (deliveries w) =
          (Some (claim_update drv now d),
           map (\<lambda>y. if delivery_id y = delivery_id d then claim_update drv now d else y) (deliveries w))"
    by (rule findOneAndUpdate_distinct [OF ids mem cl key])
  with valid free have
    "deliveries (snd (acceptDelivery oidValid now drv delId w)) =
       map (\<lambda>y. if delivery_id y = delivery_id d then claim_update drv now d else y) (deliveries w)"
    by (simp add: acceptDelivery_deliveries)
  then show ?thesis using idd by (auto simp: claimable_def)
qed

lemma not_claimable_apply_op:
  assumes "\<forall>x\<in>set (deliveries w). \<not> claimable delId x"
  shows "\<forall>x\<in>set (deliveries (apply_op oidValid a w)). \<not> claimable delId x"
proof (cases a)
  case (ClaimDelivery now drv i)
  with assms show ?thesis
    by (auto simp: acceptDelivery_deliveries claimable_def dest!: findOneAndUpdate_set)
next
  case (StartDelivery now drv i)
  with assms show ?thesis
    by (auto simp: startDelivery_deliveries claimable_def dest!: findOneAndUpdate_set)
next
  case (CompleteDelivery now drv i)
  with assms show ?thesis
    by (auto simp: completeDelivery_deliveries claimable_def dest!: findOneAndUpdate_set)
qed

lemma not_claimable_run:
  "\<forall>x\<in>set (deliveries w). \<not> claimable delId x \<Longrightarrow>
     \<forall>x\<in>set (deliveries (run oidValid ops w)). \<not> claimable delId x"
proof (induction ops arbitrary: w)
  case Nil
  then show ?case by simp
next
  case (Cons a ops)
  from Cons.prems have "\<forall>x\<in>set (deliveries (apply_op oidValid a w)). \<not> claimable delId x"
    by (rule not_claimable_apply_op)
  then show ?case using Cons.IH by simp
qed

text \<open>
  C1 as stated fails: a driver who holds an accepted delivery claims a delivery that is
  \<open>upcoming\<close> with its driver id unset, and the call is refused as a conflict.
\<close>

theorem claim_conditional_update_counterexample:
  "claimable ''d2'' parcel2 \<and> find (claimable ''d2'') (deliveries busyWorld) = Some parcel2 \<and>
   acceptDelivery anyId 350 ''drvA'' ''d2'' busyWorld = (Conflict, busyWorld)"
  by (simp add: acceptDelivery_def isValidObjectId_def anyId_def busyWorld_def freeWorld_def
      emptyWorld_def parcel1_def parcel2_def claim_update_def claimable_def unclaimed_def
      active_for_def in_active_status_def Conflict_def)

text \<open>
  C1, amended. For a well-formed delivery id and a caller who holds no accepted or
  in-transit delivery, \<open>acceptDelivery\<close> is the conditional update alone: if a delivery
  with that id is \<open>upcoming\<close> with its driver id unset, the call answers 200 and sets the
  driver id to the caller, the status to \<open>accepted\<close> and \<open>acceptedAt\<close> on that delivery; if
  none is, it answers the not-available failure. Every call that does not succeed
  leaves the world unchanged. In a store with distinct ids, once a claim of a delivery
  has succeeded, no later claim of it succeeds, whatever delivery operations come in
  between.
\<close>

theorem claim_conditional_update:
  "(isValidObjectId oidValid delId \<and> (\<forall>x\<in>set (deliveries w). \<not> active_for drv x) \<longrightarrow>
      (case find (claimable delId) (deliveries w) of
         None \<Rightarrow> acceptDelivery oidValid now drv delId w = (NotAvailable, w)
       | Some d \<Rightarrow>
           fst (acceptDelivery oidValid now drv delId w) =
             (200, DeliveryOk (d\<lparr>driverId := Ref drv, status := Accepted,
                                 acceptedAt := Some now, updatedAt := now\<rparr>)
                     ''Delivery accepted successfully'') \<and>
           deliveries (snd (acceptDelivery oidValid now drv delId w)) =
             (deliveries w)[length (takeWhile (\<lambda>x. \<not> claimable delId x) (deliveries w)) :=
                d\<lparr>driverId := Ref drv, status := Accepted,
                  acceptedAt := Some now, updatedAt := now\<rparr>])) \<and>
   (\<not> succeeded (fst (acceptDelivery oidValid now drv delId w)) \<longrightarrow>
      snd (acceptDelivery oidValid now drv delId w) = w) \<and>
   (distinct (map delivery_id (deliveries w)) \<and>
    succeeded (fst (acceptDelivery oidValid now drv delId w)) \<longrightarrow>
      \<not> succeeded (fst (acceptDelivery oidValid now2 drv2 delId
                          (run oidValid ops (snd (acceptDelivery oidValid now drv delId w))))))"
proof (intro conjI impI)
  assume a: "isValidObjectId oidValid delId \<and> (\<forall>x\<in>set (deliveries w). \<not> active_for drv x)"
  then have free: "find (active_for drv) (deliveries w) = None"
    by (simp add: find_None_iff)
  with a show "case find (claimable delId) (deliveries w) of
         None \<Rightarrow> acceptDelivery oidValid now drv delId w = (NotAvailable, w)
       | Some d \<Rightarrow>
           fst (acceptDelivery oidValid now drv delId w) =
             (200, DeliveryOk (d\<lparr>driverId := Ref drv, status := Accepted,
                                 acceptedAt := Some now, updatedAt := now\<rparr>)
                     ''Delivery accepted successfully'') \<and>
           deliveries (snd (acceptDelivery oidValid now drv delId w)) =
             (deliveries w)[length (takeWhile (\<lambda>x. \<not> claimable delId x) (deliveries w)) :=
                d\<lparr>driverId := Ref drv, status := Accepted,
                  acceptedAt := Some now, updatedAt := now\<rparr>]"
    by (simp add: acceptDelivery_def findOneAndUpdate_find NotAvailable_def claim_update_def
        notifyDeliveryAccepted_def createNotification_def incTotalDeliveries_def
        split: option.split)
next
  assume "\<not> succeeded (fst (acceptDelivery oidValid now drv delId w))"
  then show "snd (acceptDelivery oidValid now drv delId w) = w"
    by (rule acceptDelivery_failed_unchanged)
next
  assume b: "distinct (map delivery_id (deliveries w)) \<and>
             succeeded (fst (acceptDelivery oidValid now drv delId w))"
  then have ids: "distinct (map delivery_id (deliveries w))"
    and ok: "succeeded (fst (acceptDelivery oidValid now drv delId w))" by simp_all
  have "\<forall>x\<in>set (deliveries (snd (acceptDelivery oidValid now drv delId w))). \<not> claimable delId x"
    by (rule claimed_not_claimable [OF ids ok])
  then have "\<forall>x\<in>set (deliveries (run oidValid ops (snd (acceptDelivery oidValid now drv delId w)))).
               \<not> claimable delId x"
    by (rule not_claimable_run)
  then have "find (claimable delId)
               (deliveries (run oidValid ops (snd (acceptDelivery oidValid now drv delId w)))) = None"
    by (simp add: find_None_iff)
  then show "\<not> succeeded (fst (acceptDelivery oidValid now2 drv2 delId
                          (run oidValid ops (snd (acceptDelivery oidValid now drv delId w)))))"
    by (simp add: acceptDelivery_succeeded)
qed

theorem claim_conditional_update_witness:
  "fst (acceptDelivery anyId 300 ''drvA'' ''d1'' freeWorld) =
     (200, DeliveryOk (claim_update ''drvA'' 300 parcel1) ''Delivery accepted successfully'') \<and>
   deliveries (snd (acceptDelivery anyId 300 ''drvA'' ''d1'' freeWorld)) = deliveries busyWorld \<and>
   \<not> succeeded (fst (acceptDelivery anyId 600 ''drvB'' ''d1''
      (run anyId [StartDelivery 400 ''drvA'' ''d1'', CompleteDelivery 500 ''drvA'' ''d1'']
         (snd (acceptDelivery anyId 300 ''drvA'' ''d1'' freeWorld)))))"
proof -
  have h1: "isValidObjectId anyId ''d1'' \<and> (\<forall>x\<in>set (deliveries freeWorld). \<not> active_for ''drvA'' x)"
    by (simp add: isValidObjectId_def anyId_def freeWorld_def emptyWorld_def parcel1_def
        parcel2_def active_for_def)
  have h2: "find (claimable ''d1'') (deliveries freeWorld) = Some parcel1"
    by (simp add: freeWorld_def emptyWorld_def parcel1_def parcel2_def claimable_def unclaimed_def)
  have h3: "distinct (map delivery_id (deliveries freeWorld))"
    by (simp add: freeWorld_def emptyWorld_def parcel1_def parcel2_def)
  have h4: "length (takeWhile (\<lambda>x. \<not> claimable ''d1'' x) (deliveries freeWorld)) = 0"
    by (simp add: freeWorld_def emptyWorld_def parcel1_def parcel2_def claimable_def unclaimed_def)
  have h5: "succeeded (fst (acceptDelivery anyId 300 ''drvA'' ''d1'' freeWorld))"
    using h1 h2 by (simp add: acceptDelivery_succeeded find_None_iff)
  show ?thesis
    using claim_conditional_update [of anyId "''d1''" freeWorld "''drvA''" 300 600 "''drvB''"
        "[StartDelivery 400 ''drvA'' ''d1'', CompleteDelivery 500 ''drvA'' ''d1'']"]
      h1 h2 h3 h4 h5
    by (simp add: claim_update_def busyWorld_def freeWorld_def emptyWorld_def)
qed

subsection \<open>One active delivery per driver\<close>

lemma active_count_apply_op:
  assumes "length (filter (active_for D) (deliveries w)) \<le> 1"
  shows "length (filter (active_for D) (deliveries (apply_op oidValid a w))) \<le> 1"
proof (cases a)
  case (ClaimDelivery now drv i)
  show ?thesis
  proof (cases "isValidObjectId oidValid i \<and> find (active_for drv) (deliveries w) = None")
    case False
    with assms ClaimDelivery show ?thesis by (auto simp: acceptDelivery_deliveries)
  next
    case True
    then have dels: "deliveries (apply_op oidValid a w) =
        snd (findOneAndUpdate (claimable i) (claim_update drv now) (deliveries w))"
      using ClaimDelivery by (simp add: acceptDelivery_deliveries)
    show ?thesis
    proof (cases "D = drv")
      case True
      with \<open>isValidObjectId oidValid i \<and> find (active_for drv) (deliveries w) = None\<close>
      have "filter (active_for D) (deliveries w) = []" by (simp add: filter_active_empty)
      then show ?thesis
        unfolding dels
        using findOneAndUpdate_filter_Suc [of "active_for D" "claimable i" "claim_update drv now" "deliveries w"]
        by simp
    next
      case False
      then have "\<forall>x\<in>set (deliveries w). claimable i x \<longrightarrow>
                   active_for D (claim_update drv now x) \<longrightarrow> active_for D x"
        by (simp add: active_for_def)
      then have "length (filter (active_for D)
                   (snd (findOneAndUpdate (claimable i) (claim_update drv now) (deliveries w))))
                 \<le> length (filter (active_for D) (deliveries w))"
        by (rule findOneAndUpdate_filter_le)
      with assms show ?thesis unfolding dels by simp
    qed
  qed
next
  case (StartDelivery now drv i)
  have "\<forall>x\<in>set (deliveries w). startable drv i x \<longrightarrow>
          active_for D (start_update now x) \<longrightarrow> active_for D x"
    by (simp add: active_for_def startable_def in_active_status_def)
  then have "length (filter (active_for D)
               (snd (findOneAndUpdate (startable drv i) (start_update now) (deliveries w))))
             \<le> length (filter (active_for D) (deliveries w))"
    by (rule findOneAndUpdate_filter_le)
  with assms StartDelivery show ?thesis by (simp add: startDelivery_deliveries)
next
  case (CompleteDelivery now drv i)
  have "\<forall>x\<in>set (deliveries w). completable drv i x \<longrightarrow>
          active_for D (complete_update now x) \<longrightarrow> active_for D x"
    by (simp add: active_for_def in_active_status_def)
  then have "length (filter (active_for D)
               (snd (findOneAndUpdate (completable drv i) (complete_update now) (deliveries w))))
             \<le> length (filter (active_for D) (deliveries w))"
    by (rule findOneAndUpdate_filter_le)
  with assms CompleteDelivery show ?thesis by (simp add: completeDelivery_deliveries)
qed

lemma active_count_run:
  "length (filter (active_for D) (deliveries w)) \<le> 1 \<Longrightarrow>
     length (filter (active_for D) (deliveries (run oidValid ops w))) \<le> 1"
proof (induction ops arbitrary: w)
  case Nil
  then show ?case by simp
next
  case (Cons a ops)
  from Cons.prems have "length (filter (active_for D) (deliveries (apply_op oidValid a w))) \<le> 1"
    by (rule active_count_apply_op)
  then show ?case using Cons.IH by simp
qed

subsection \<open>Requests in flight\<close>

lemma acceptDelivery_phases:
  "acceptDelivery oidValid now drv delId w =
     (case acceptDelivery_check oidValid drv delId w of
        Some response \<Rightarrow> (response, w)
      | None \<Rightarrow> acceptDelivery_write now drv delId w)"
  by (simp add: acceptDelivery_def acceptDelivery_check_def acceptDelivery_write_def
      split: option.split)

lemma exec_all_append:
  "exec_all oidValid (es @ fs) s = exec_all oidValid fs (exec_all oidValid es s)"
  by (induction es arbitrary: s) auto

lemma exec_events_of:
  "exec_all oidValid (events_of a) (w, []) = (apply_op oidValid a w, [])"
  by (cases a) (auto simp: acceptDelivery_phases split: option.splits)

lemma run_sequential:
  "exec_all oidValid (concat (map events_of ops)) (w, []) = (run oidValid ops w, [])"
  by (induction ops arbitrary: w) (auto simp: exec_all_append exec_events_of)

lemma acceptDelivery_write_deliveries:
  "deliveries (snd (acceptDelivery_write now drv delId w)) =
     snd (findOneAndUpdate (claimable delId) (claim_update drv now) (deliveries w))"
  by (auto simp: acceptDelivery_write_def findOneAndUpdate_find notifyDeliveryAccepted_def
      createNotification_def incTotalDeliveries_def split: option.splits)

text \<open>
  The conditional update decides a claim also when requests overlap: deliveries that
  are no longer claimable stay so under every execution.
\<close>

lemma not_claimable_exec:
  assumes "\<forall>x\<in>set (deliveries (fst s)). \<not> claimable delId x"
  shows "\<forall>x\<in>set (deliveries (fst (exec oidValid e s))). \<not> claimable delId x"
proof (cases s)
  case (Pair w inFlight)
  show ?thesis
  proof (cases e)
    case (EvCheck drv i)
    with assms Pair show ?thesis by (auto split: option.splits)
  next
    case (EvWrite now drv i)
    with assms Pair show ?thesis
      by (auto simp: acceptDelivery_write_deliveries claimable_def dest!: findOneAndUpdate_set)
  next
    case (EvStart now drv i)
    with assms Pair show ?thesis
      by (auto simp: startDelivery_deliveries claimable_def dest!: findOneAndUpdate_set)
  next
    case (EvComplete now drv i)
    with assms Pair show ?thesis
      by (auto simp: completeDelivery_deliveries claimable_def dest!: findOneAndUpdate_set)
  qed
qed

lemma not_claimable_exec_all:
  "\<forall>x\<in>set (deliveries (fst s)). \<not> claimable delId x \<Longrightarrow>
     \<forall>x\<in>set (deliveries (fst (exec_all oidValid es s))). \<not> claimable delId x"
proof (induction es arbitrary: s)
  case Nil
  then show ?case by simp
next
  case (Cons e es)
  from Cons.prems have "\<forall>x\<in>set (deliveries (fst (exec oidValid e s))). \<not> claimable delId x"
    by (rule not_claimable_exec)
  then show ?case using Cons.IH by simp
qed

text \<open>
  C2 as stated fails, in both parts. Two claims of one driver whose pre-checks both run
  before either update both succeed, and the driver then holds two accepted deliveries.
  And a driver who holds an accepted delivery and claims with the ill-formed id
  \<open>:deliveryId\<close> is answered with the invalid-id response, not with the conflict.
\<close>

theorem single_active_delivery_counterexample:
  "length (filter (active_for ''drvA'') (deliveries freeWorld)) = 0 \<and>
   length (filter (active_for ''drvA'')
     (deliveries (fst (exec_all anyId
        [EvCheck ''drvA'' ''d1'', EvCheck ''drvA'' ''d2'',
         EvWrite 300 ''drvA'' ''d1'', EvWrite 310 ''drvA'' ''d2''] (freeWorld, []))))) = 2 \<and>
   length (filter (active_for ''drvA'') (deliveries busyWorld)) = 1 \<and>
   acceptDelivery anyId 350 ''drvA'' '':deliveryId'' busyWorld =
     ((400, InvalidIdFormat '':deliveryId''), busyWorld) \<and>
   fst (acceptDelivery anyId 350 ''drvA'' '':deliveryId'' busyWorld) \<noteq> Conflict"
  by (simp add: acceptDelivery_def acceptDelivery_check_def acceptDelivery_write_def
      isValidObjectId_def anyId_def busyWorld_def freeWorld_def emptyWorld_def parcel1_def
      parcel2_def claim_update_def claimable_def unclaimed_def active_for_def
      in_active_status_def Conflict_def notifyDeliveryAccepted_def createNotification_def
      incTotalDeliveries_def ann_def)

text \<open>
  C2, amended. For every driver \<open>D\<close>: if at most one delivery has driver id \<open>D\<close> and
  status \<open>accepted\<close> or \<open>in-transit\<close>, the same holds after any sequence of claim, start
  and complete requests by any drivers in which every request runs to its end before
  the next one begins. A claim by a driver who holds such a delivery changes nothing and
  is answered with the conflict if the delivery id is well formed, and with the
  invalid-id response if it is not.
\<close>

theorem single_active_delivery:
  "(length (filter (active_for D) (deliveries w)) \<le> 1 \<longrightarrow>
      length (filter (active_for D) (deliveries (run oidValid ops w))) \<le> 1) \<and>
   ((\<exists>d\<in>set (deliveries w). driverId d = Ref drv \<and> (status d = Accepted \<or> status d = InTransit)) \<longrightarrow>
      acceptDelivery oidValid now drv delId w =
        (if isValidObjectId oidValid delId
         then ((400, Failure ''You already have an active delivery''), w)
         else ((400, InvalidIdFormat delId), w)))"
proof (intro conjI impI)
  assume "length (filter (active_for D) (deliveries w)) \<le> 1"
  then show "length (filter (active_for D) (deliveries (run oidValid ops w))) \<le> 1"
    by (rule active_count_run)
next
  assume "\<exists>d\<in>set (deliveries w). driverId d = Ref drv \<and> (status d = Accepted \<or> status d = InTransit)"
  then have "find (active_for drv) (deliveries w) \<noteq> None"
    by (auto simp: find_None_iff active_for_def in_active_status_def)
  then obtain e where "find (active_for drv) (deliveries w) = Some e" by blast
  then show "acceptDelivery oidValid now drv delId w =
        (if isValidObjectId oidValid delId
         then ((400, Failure ''You already have an active delivery''), w)
         else ((400, InvalidIdFormat delId), w))"
    by (simp add: acceptDelivery_def)
qed

theorem single_active_delivery_witness:
  "length (filter (active_for ''drvA'') (deliveries busyWorld)) \<le> 1 \<and>
   length (filter (active_for ''drvA'')
     (deliveries (run anyId [ClaimDelivery 350 ''drvA'' ''d2'', StartDelivery 400 ''drvA'' ''d1'',
                             CompleteDelivery 500 ''drvA'' ''d1'', ClaimDelivery 600 ''drvA'' ''d2'']
                   busyWorld))) \<le> 1 \<and>
   acceptDelivery anyId 350 ''drvA'' ''d2'' busyWorld =
     ((400, Failure ''You already have an active delivery''), busyWorld)"
proof -
  have h1: "length (filter (active_for ''drvA'') (deliveries busyWorld)) \<le> 1"
    by (simp add: busyWorld_def freeWorld_def emptyWorld_def parcel1_def parcel2_def
        claim_update_def active_for_def in_active_status_def)
  have h2: "\<exists>d\<in>set (deliveries busyWorld).
              driverId d = Ref ''drvA'' \<and> (status d = Accepted \<or> status d = InTransit)"
    by (simp add: busyWorld_def freeWorld_def emptyWorld_def
        parcel1_def parcel2_def claim_update_def)
  have h3: "isValidObjectId anyId ''d2''"
    by (simp add: isValidObjectId_def anyId_def)
  note inst = single_active_delivery [of "''drvA''" busyWorld anyId
        "[ClaimDelivery 350 ''drvA'' ''d2'', StartDelivery 400 ''drvA'' ''d1'',
          CompleteDelivery 500 ''drvA'' ''d1'', ClaimDelivery 600 ''drvA'' ''d2'']"
        "''drvA''" 350 "''d2''"]
  from inst h1 have c1: "length (filter (active_for ''drvA'')
     (deliveries (run anyId [ClaimDelivery 350 ''drvA'' ''d2'', StartDelivery 400 ''drvA'' ''d1'',
                             CompleteDelivery 500 ''drvA'' ''d1'', ClaimDelivery 600 ''drvA'' ''d2'']
                   busyWorld))) \<le> 1"
    by blast
  from inst h2 h3 have c2: "acceptDelivery anyId 350 ''drvA'' ''d2'' busyWorld =
     ((400, Failure ''You already have an active delivery''), busyWorld)"
    by simp
  from h1 c1 c2 show ?thesis by blast
qed

end
